theory Spec2Isabelle
  imports Main
begin

text \<open>
  A shallow embedding of gocat's deployment engine: the git operator (\<open>git.go\<close>), the
  kanvas strategy (\<open>GitOpsPluginKanvas.Prepare\<close>), the deploy watcher
  (\<open>AutoDeploy.checkAndDeploy\<close>) and the phase aliases of the chat listener
  (\<open>slack.go\<close>).

  The code is Go. A function that touches the outside becomes a function from a world
  to its results and the next world. The world holds what the properties speak of: the
  repositories of go-git (their references, their \<open>HEAD\<close>, the files of their
  worktrees), the paths of the operating system's filesystem, and the log of the calls
  made. What a library or a service answers comes from an environment that the
  theorems quantify over. Printing is left out. Multiple results are tuples, with
  \<open>error option\<close> for Go's \<open>error\<close>.
\<close>

section \<open>Go standard-library functions the code calls\<close>

text \<open>
  Strings are byte strings. The functions below are the ones from \<open>strings\<close>,
  \<open>fmt\<close>, \<open>path/filepath\<close> (Unix separator) and \<open>strconv\<close> that the
  repository calls; each follows its package documentation.
\<close>

definition HasPrefix :: "string \<Rightarrow> string \<Rightarrow> bool" where
  "HasPrefix s p = (take (length p) s = p)"

definition HasSuffix :: "string \<Rightarrow> string \<Rightarrow> bool" where
  "HasSuffix s suf = (length suf \<le> length s \<and> drop (length s - length suf) s = suf)"

definition TrimSuffix :: "string \<Rightarrow> string \<Rightarrow> string" where
  "TrimSuffix s suf = (if HasSuffix s suf then take (length s - length suf) s else s)"

text \<open>
  \<open>strings.ReplaceAll s old new\<close> (also \<open>strings.Replace\<close> with \<open>n = -1\<close>):
  non-overlapping occurrences of \<open>old\<close> are replaced from left to right; an empty
  \<open>old\<close> matches before every byte and at the end.
\<close>

function ReplaceAll :: "string \<Rightarrow> string \<Rightarrow> string \<Rightarrow> string" where
  "ReplaceAll s [] new = new @ concat (map (\<lambda>c. c # new) s)"
| "ReplaceAll [] (x # xs) new = []"
| "ReplaceAll (c # cs) (x # xs) new =
     (if HasPrefix (c # cs) (x # xs)
      then new @ ReplaceAll (drop (length xs) cs) (x # xs) new
      else c # ReplaceAll cs (x # xs) new)"
  by pat_completeness auto
termination
  by (relation "measure (\<lambda>(s, old, new). length s)") auto

text \<open>The branch name: \<open>fmt.Sprintf("bot/docker-image-tag-%s-%s-%s", id, name, tag)\<close>.\<close>

definition branchName :: "string \<Rightarrow> string \<Rightarrow> string \<Rightarrow> string" where
  "branchName ident name tag = ''bot/docker-image-tag-'' @ ident @ ''-'' @ name @ ''-'' @ tag"

fun split_path :: "string \<Rightarrow> string list" where
  "split_path [] = [[]]"
| "split_path (c # cs) =
     (if c = CHR ''/'' then [] # split_path cs
      else (case split_path cs of [] \<Rightarrow> [[c]] | e # es \<Rightarrow> (c # e) # es))"

fun join_sep :: "string list \<Rightarrow> string" where
  "join_sep [] = []"
| "join_sep [e] = e"
| "join_sep (e # es) = e @ ''/'' @ join_sep es"

text \<open>
  The element stack of \<open>filepath.Clean\<close>: empty and \<open>.\<close> elements vanish, an inner
  \<open>..\<close> removes the element before it, a leading \<open>..\<close> stays in a relative path and
  vanishes in a rooted one. \<open>out\<close> is the stack, top first.
\<close>

fun clean_elems :: "bool \<Rightarrow> string list \<Rightarrow> string list \<Rightarrow> string list" where
  "clean_elems rooted out [] = rev out"
| "clean_elems rooted out (e # es) =
     (if e = [] \<or> e = ''.'' then clean_elems rooted out es
      else if e = ''..'' then
        (case out of
           [] \<Rightarrow> if rooted then clean_elems rooted [] es else clean_elems rooted [''..''] es
         | e1 # below \<Rightarrow>
             if e1 = ''..'' then clean_elems rooted (''..'' # out) es
             else clean_elems rooted below es)
      else clean_elems rooted (e # out) es)"

definition filepath_Clean :: "string \<Rightarrow> string" where
  "filepath_Clean path =
     (let rooted = HasPrefix path ''/'';
          body = join_sep (clean_elems rooted [] (split_path path));
          out = (if rooted then ''/'' @ body else body)
      in if out = [] then ''.'' else out)"

definition filepath_Join :: "string list \<Rightarrow> string" where
  "filepath_Join elems =
     (let es = filter (\<lambda>e. e \<noteq> []) elems
      in if es = [] then [] else filepath_Clean (join_sep es))"

definition filepath_Base :: "string \<Rightarrow> string" where
  "filepath_Base path =
     (if path = [] then ''.''
      else let p = rev (dropWhile (\<lambda>c. c = CHR ''/'') (rev path))
           in if p = [] then ''/'' else rev (takeWhile (\<lambda>c. c \<noteq> CHR ''/'') (rev p)))"

text \<open>
  \<open>strconv.Atoi\<close> on a 64-bit platform: an optional sign, then one or more decimal
  digits, and the value must fit a signed 64-bit integer; anything else is an error
  (\<open>None\<close>).
\<close>

definition is_digit :: "char \<Rightarrow> bool" where
  "is_digit c = ((48::nat) \<le> of_char c \<and> (of_char c :: nat) \<le> 57)"

fun digits_value :: "int \<Rightarrow> string \<Rightarrow> int" where
  "digits_value acc [] = acc"
| "digits_value acc (c # cs) = digits_value (acc * 10 + (of_char c - 48)) cs"

definition Atoi :: "string \<Rightarrow> int option" where
  "Atoi s =
     (case s of
        [] \<Rightarrow> None
      | c # cs \<Rightarrow>
          (let neg = (c = CHR ''-'');
               ds = (if c = CHR ''-'' \<or> c = CHR ''+'' then cs else s)
           in if ds = [] \<or> \<not> list_all is_digit ds then None
              else let n = digits_value 0 ds
                   in if neg then (if n > 2 ^ 63 then None else Some (- n))
                      else (if n \<ge> 2 ^ 63 then None else Some n)))"

section \<open>Chat command phase aliases (slack.go)\<close>

definition toPhase :: "string \<Rightarrow> string" where
  "toPhase str =
     (if str = ''pro'' \<or> str = ''prd'' \<or> str = ''production'' then ''production''
      else if str = ''stg'' \<or> str = ''staging'' then ''staging''
      else if str = ''sandbox'' then ''sandbox''
      else ''staging'')"


section \<open>Errors\<close>

text \<open>
  Go errors as values. \<open>New\<close> is \<open>errors.New\<close>/\<open>xerrors.New\<close> with its message,
  \<open>Wrap\<close> is \<open>fmt.Errorf("...: %w", err)\<close>, the named constructors are the sentinel
  errors of go-git and \<open>os\<close> the code compares against or its libraries return, and
  \<open>Lib\<close> is any other error of a library.
\<close>

datatype error =
    New string
  | Wrap string error
  | ErrRepositoryAlreadyExists
  | NoErrAlreadyUpToDate
  | ErrReferenceNotFound
  | ErrNotExist
  | Lib string

fun errors_Is :: "error \<Rightarrow> error \<Rightarrow> bool" where
  "errors_Is (Wrap m e) target = (Wrap m e = target \<or> errors_Is e target)"
| "errors_Is e target = (e = target)"

text \<open>A nil-pointer dereference panics; a function that can panic returns an outcome.\<close>

datatype 'a outcome = Panic | Ret 'a

section \<open>Data model\<close>

subsection \<open>Manifest and config documents (git.go, kustomize \<open>types\<close>)\<close>

datatype yaml = YNull | YStr string | YSeq "yaml list" | YMap "(string \<times> yaml) list"

text \<open>
  \<open>types.Image\<close> and \<open>types.Kustomization\<close> are declared by kustomize. The code reads
  \<open>Name\<close> and writes \<open>NewTag\<close> of the entries of \<open>Images\<close>; \<open>OtherFields\<close> stands for
  every other field the struct declares, by its yaml key.
\<close>

record Image =
  Name :: string
  NewName :: string
  NewTag :: string
  Digest :: string

record Kustomization =
  Images :: "Image list"
  OtherFields :: "(string \<times> yaml) list"

record ConfigMap =
  APIVersion :: string
  Kind :: string
  Metadata :: "string \<rightharpoonup> string"
  Data :: "string \<rightharpoonup> string"

text \<open>The two implementations of the interface \<open>OverWrite\<close>, and what \<open>Update\<close> returns.\<close>

datatype OverWrite = KustomizationOverWrite string string | MemcachedOverWrite

datatype obj = KustomizationObj Kustomization | ConfigMapObj ConfigMap

subsection \<open>Projects, phases and outcomes\<close>

text \<open>
  Modelled from the spec: the declarations of \<open>DeployPhase\<close>, \<open>DeployProject\<close>,
  \<open>ImageTagVars\<close>, \<open>DeployOption\<close>, \<open>User\<close>, \<open>GitHub\<close>, \<open>DeployStatus\<close> and
  \<open>GitOpsPrepareOutput\<close> are not among the sources. The records have the fields the
  sources read and write, under their names there; the statuses are the three of the
  spec's outcome (Success, Failed, AlreadyDeployed) under the names the sources use.
\<close>

record DeployPhase =
  Name :: string
  Kind :: string
  Path :: string
  AutoDeploy :: bool
  NotifyChannel :: string

text \<open>
  A project; the fields after \<open>Phases\<close> hold what the accessor methods
  \<open>ECRRegistryId\<close>, \<open>ECRRepository\<close>, \<open>ImageTagRegexp\<close>, \<open>TargetRegexp\<close> and
  \<open>DefaultBranch\<close> return.
\<close>

record DeployProject =
  ID :: string
  gitHubRepository :: string
  Phases :: "DeployPhase list"
  ECRRegistryId :: string
  ECRRepository :: string
  ImageTagRegexp :: string
  TargetRegexp :: string
  DefaultBranch :: string

record ImageTagVars =
  Branch :: string
  Phase :: string

record DeployOption =
  Branch :: string
  Wait :: bool

record User =
  GitHubNodeID :: string

record GitHub =
  org :: string

datatype DeployStatus = DeployStatusSuccess | DeployStatusFail | DeployStatusAlready

record GitOpsPrepareOutput =
  PullRequestID :: string
  PullRequestNumber :: int
  PullRequestHTMLURL :: string
  Branch :: string
  status :: DeployStatus

text \<open>The kanvas client: a produced pull request and the options of \<open>Apply\<close>.\<close>

record PullRequest =
  Number :: string
  NodeID :: string
  HTMLURL :: string

record ApplyOptions =
  SkippedComponents :: "(string \<times> (string \<times> string) list) list"
  GitUserName :: string
  PullRequestHead :: string
  EnvVars :: "(string \<times> string) list"
  PullRequestAssigneeIDs :: "string list"

subsection \<open>The git operator and the world it acts on\<close>

text \<open>go-git's status codes and the status of one path.\<close>

datatype StatusCode =
  Unmodified | Untracked | Modified | Added | Deleted | Renamed | Copied | UpdatedButUnmerged

record FileStatus =
  Staging :: StatusCode
  Worktree :: StatusCode

text \<open>
  A repository object of go-git: its reference store, the branch \<open>HEAD\<close> points to and
  the files of its worktree. A worktree handle is the address of its repository.
\<close>

record Repository =
  refs :: "string \<rightharpoonup> string"
  HEAD :: string
  files :: "string \<rightharpoonup> string"

record GitOperator =
  auth :: "string \<times> string"
  repo :: string
  repository :: "nat option"
  username :: string
  defaultBranch :: string
  gitRoot :: string

record GitOpsPluginKanvas =
  github :: GitHub
  git :: GitOperator

text \<open>
  Every call that leaves the process, in the order the code makes them. The status
  query and the run of the kanvas tool are logged with what they returned.
\<close>

datatype event =
    GitClone string string
  | StorerRemoveReference nat string
  | StorerSetReference nat string string
  | RepositoryWorktree nat
  | WorktreeCheckout nat bool string
  | WorktreePull nat
  | WorktreeStatus nat "error + (string \<times> FileStatus) list"
  | WorktreeCommit nat string string
  | WorktreeAdd nat string
  | RepositoryRemote nat string
  | RemotePush nat string
  | FsStat nat string
  | FsOpen nat string
  | FsReadAll nat string
  | FsClose nat string
  | FsRemove nat string
  | FsOpenFile nat string
  | FsWrite nat string string
  | OsStat string
  | OsRemoveAll string
  | OsMkdirAll string
  | CreateECRInstance
  | FindImageTagByRegexp string string string string ImageTagVars
  | GetCurrentRevision string
  | ModelListFind string
  | ModelDeploy string string DeployOption
  | PostMessage string "(string \<times> string) list"
  | KanvasApply string string ApplyOptions "error + PullRequest list"

record world =
  repos :: "nat \<Rightarrow> Repository"
  next_repo :: nat
  os_paths :: "string list"
  log :: "event list"

text \<open>
  What the libraries and the services behind them answer. The code is deterministic
  given these answers; an answer is indexed by the number of calls made before it
  (the length of the log), so that every call can be answered in every way.
  \<open>fault\<close> is the error a call returns, if any.
\<close>

datatype clone_outcome = Cloned Repository | InitFailed error | FetchFailed error

record env =
  fault :: "nat \<Rightarrow> error option"
  clone_outcome :: "nat \<Rightarrow> clone_outcome"
  pull_result :: "nat \<Rightarrow> string"
  tree_of :: "string \<Rightarrow> (string \<rightharpoonup> string)"
  status_result :: "nat \<Rightarrow> (string \<times> FileStatus) list"
  commit_hash :: "nat \<Rightarrow> string"
  unmarshal_Kustomization :: "string \<Rightarrow> error + Kustomization"
  unmarshal_ConfigMap :: "string \<Rightarrow> error + ConfigMap"
  marshal :: "obj \<Rightarrow> error + string"
  time_Now :: "nat \<Rightarrow> string"
  ecr_tag :: "nat \<Rightarrow> string"
  current_revision :: "nat \<Rightarrow> string"
  apply_result :: "nat \<Rightarrow> PullRequest list"
  getenv :: "string \<Rightarrow> string"


section \<open>Library calls\<close>

text \<open>
  Every call is appended to the log and then fails with the fault the environment
  gives for that moment, or takes effect. A failed call has no effect.
\<close>

definition lib_call ::
  "env \<Rightarrow> event \<Rightarrow> (world \<Rightarrow> error option \<times> world) \<Rightarrow> world \<Rightarrow> error option \<times> world" where
  "lib_call E ev body s =
     (let s1 = s\<lparr>log := log s @ [ev]\<rparr>
      in case fault E (length (log s)) of
           Some e \<Rightarrow> (Some e, s1)
         | None \<Rightarrow> body s1)"

definition upd_repo :: "nat \<Rightarrow> (Repository \<Rightarrow> Repository) \<Rightarrow> world \<Rightarrow> world" where
  "upd_repo r f s = s\<lparr>repos := (repos s)(r := f (repos s r))\<rparr>"

subsection \<open>go-git\<close>

definition zero_hash :: string where
  "zero_hash = replicate 40 (CHR ''0'')"

definition empty_repository :: Repository where
  "empty_repository = \<lparr>refs = Map.empty, HEAD = ''refs/heads/master'', files = Map.empty\<rparr>"

text \<open>\<open>Storer.RemoveReference\<close>: the reference is gone afterwards; removing a missing one is no error.\<close>

definition Storer_RemoveReference :: "env \<Rightarrow> nat \<Rightarrow> string \<Rightarrow> world \<Rightarrow> error option \<times> world" where
  "Storer_RemoveReference E r name =
     lib_call E (StorerRemoveReference r name)
       (\<lambda>s. (None, upd_repo r (\<lambda>R. R\<lparr>refs := (refs R)(name := None)\<rparr>) s))"

definition Storer_SetReference ::
  "env \<Rightarrow> nat \<Rightarrow> string \<Rightarrow> string \<Rightarrow> world \<Rightarrow> error option \<times> world" where
  "Storer_SetReference E r name target =
     lib_call E (StorerSetReference r name target)
       (\<lambda>s. (None, upd_repo r (\<lambda>R. R\<lparr>refs := (refs R)(name \<mapsto> target)\<rparr>) s))"

definition Repository_Worktree :: "env \<Rightarrow> nat \<Rightarrow> world \<Rightarrow> error option \<times> world" where
  "Repository_Worktree E r = lib_call E (RepositoryWorktree r) (\<lambda>s. (None, s))"

text \<open>
  \<open>Worktree.Checkout\<close>. With \<open>Create\<close>, the branch must not exist and is created at
  the commit \<open>HEAD\<close> resolves to; without, the branch must exist. Then \<open>HEAD\<close> points
  to the branch and the worktree holds the files of its commit.
\<close>

definition Worktree_Checkout ::
  "env \<Rightarrow> nat \<Rightarrow> bool \<Rightarrow> string \<Rightarrow> world \<Rightarrow> error option \<times> world" where
  "Worktree_Checkout E w create branch =
     lib_call E (WorktreeCheckout w create branch)
       (\<lambda>s. let R = repos s w in
          if create then
            (if refs R branch \<noteq> None
             then (Some (New (''a branch named '' @ branch @ '' already exists'')), s)
             else (case refs R (HEAD R) of
                     None \<Rightarrow> (Some ErrReferenceNotFound, s)
                   | Some h \<Rightarrow>
                       (None, upd_repo w (\<lambda>R. R\<lparr>refs := (refs R)(branch \<mapsto> h), HEAD := branch,
                                                files := tree_of E h\<rparr>) s)))
          else
            (case refs R branch of
               None \<Rightarrow> (Some ErrReferenceNotFound, s)
             | Some h \<Rightarrow> (None, upd_repo w (\<lambda>R. R\<lparr>HEAD := branch, files := tree_of E h\<rparr>) s)))"

text \<open>\<open>Worktree.Pull\<close>: the checked-out branch moves to the commit fetched from origin.\<close>

definition Worktree_Pull :: "env \<Rightarrow> nat \<Rightarrow> world \<Rightarrow> error option \<times> world" where
  "Worktree_Pull E w s =
     lib_call E (WorktreePull w)
       (\<lambda>s1. (None, upd_repo w (\<lambda>R. R\<lparr>refs := (refs R)(HEAD R \<mapsto> pull_result E (length (log s))),
                                     files := tree_of E (pull_result E (length (log s)))\<rparr>) s1)) s"

definition Worktree_Status ::
  "env \<Rightarrow> nat \<Rightarrow> world \<Rightarrow> (error + (string \<times> FileStatus) list) \<times> world" where
  "Worktree_Status E w s =
     (let r = (case fault E (length (log s)) of
                 Some e \<Rightarrow> Inl e
               | None \<Rightarrow> Inr (status_result E (length (log s))))
      in (r, s\<lparr>log := log s @ [WorktreeStatus w r]\<rparr>))"

text \<open>\<open>Worktree.Commit\<close> returns the new commit's hash, or the zero hash and an error.\<close>

definition Worktree_Commit ::
  "env \<Rightarrow> nat \<Rightarrow> string \<Rightarrow> string \<Rightarrow> world \<Rightarrow> (string \<times> error option) \<times> world" where
  "Worktree_Commit E w msg author s =
     (let s1 = s\<lparr>log := log s @ [WorktreeCommit w msg author]\<rparr>
      in case fault E (length (log s)) of
           Some e \<Rightarrow> ((zero_hash, Some e), s1)
         | None \<Rightarrow>
             ((commit_hash E (length (log s)), None),
              upd_repo w (\<lambda>R. R\<lparr>refs := (refs R)(HEAD R \<mapsto> commit_hash E (length (log s)))\<rparr>) s1))"

definition Worktree_Add :: "env \<Rightarrow> nat \<Rightarrow> string \<Rightarrow> world \<Rightarrow> error option \<times> world" where
  "Worktree_Add E w path = lib_call E (WorktreeAdd w path) (\<lambda>s. (None, s))"

definition Repository_Remote :: "env \<Rightarrow> nat \<Rightarrow> string \<Rightarrow> world \<Rightarrow> error option \<times> world" where
  "Repository_Remote E r name = lib_call E (RepositoryRemote r name) (\<lambda>s. (None, s))"

definition Remote_Push :: "env \<Rightarrow> nat \<Rightarrow> string \<Rightarrow> world \<Rightarrow> error option \<times> world" where
  "Remote_Push E r refspec = lib_call E (RemotePush r refspec) (\<lambda>s. (None, s))"

subsection \<open>The worktree's filesystem (go-billy)\<close>

definition Fs_Stat :: "env \<Rightarrow> nat \<Rightarrow> string \<Rightarrow> world \<Rightarrow> error option \<times> world" where
  "Fs_Stat E w path =
     lib_call E (FsStat w path)
       (\<lambda>s. (if files (repos s w) path = None then Some ErrNotExist else None, s))"

definition Fs_Open :: "env \<Rightarrow> nat \<Rightarrow> string \<Rightarrow> world \<Rightarrow> error option \<times> world" where
  "Fs_Open E w path =
     lib_call E (FsOpen w path)
       (\<lambda>s. (if files (repos s w) path = None then Some ErrNotExist else None, s))"

definition io_ReadAll :: "env \<Rightarrow> nat \<Rightarrow> string \<Rightarrow> world \<Rightarrow> (string \<times> error option) \<times> world" where
  "io_ReadAll E w path s =
     (let s1 = s\<lparr>log := log s @ [FsReadAll w path]\<rparr>
      in case fault E (length (log s)) of
           Some e \<Rightarrow> (([], Some e), s1)
         | None \<Rightarrow> ((case files (repos s w) path of None \<Rightarrow> [] | Some b \<Rightarrow> b, None), s1))"

definition File_Close :: "env \<Rightarrow> nat \<Rightarrow> string \<Rightarrow> world \<Rightarrow> error option \<times> world" where
  "File_Close E w path = lib_call E (FsClose w path) (\<lambda>s. (None, s))"

definition Fs_Remove :: "env \<Rightarrow> nat \<Rightarrow> string \<Rightarrow> world \<Rightarrow> error option \<times> world" where
  "Fs_Remove E w path =
     lib_call E (FsRemove w path)
       (\<lambda>s. if files (repos s w) path = None then (Some ErrNotExist, s)
            else (None, upd_repo w (\<lambda>R. R\<lparr>files := (files R)(path := None)\<rparr>) s))"

text \<open>\<open>OpenFile\<close> with \<open>O_RDWR|O_CREATE\<close>: a missing file is created empty.\<close>

definition Fs_OpenFile :: "env \<Rightarrow> nat \<Rightarrow> string \<Rightarrow> world \<Rightarrow> error option \<times> world" where
  "Fs_OpenFile E w path =
     lib_call E (FsOpenFile w path)
       (\<lambda>s. if files (repos s w) path = None
            then (None, upd_repo w (\<lambda>R. R\<lparr>files := (files R)(path \<mapsto> [])\<rparr>) s)
            else (None, s))"

text \<open>\<open>File.Write\<close> on the handle of a file just created: the bytes go to its end.\<close>

definition File_Write :: "env \<Rightarrow> nat \<Rightarrow> string \<Rightarrow> string \<Rightarrow> world \<Rightarrow> error option \<times> world" where
  "File_Write E w path b =
     lib_call E (FsWrite w path b)
       (\<lambda>s. (None, upd_repo w (\<lambda>R. R\<lparr>files := (files R)(path \<mapsto>
                (case files R path of None \<Rightarrow> b | Some old \<Rightarrow> old @ b))\<rparr>) s))"

subsection \<open>The operating system's filesystem\<close>

definition os_Stat :: "env \<Rightarrow> string \<Rightarrow> world \<Rightarrow> error option \<times> world" where
  "os_Stat E path =
     lib_call E (OsStat path)
       (\<lambda>s. (if path \<in> set (os_paths s) then None else Some ErrNotExist, s))"

definition under :: "string \<Rightarrow> string \<Rightarrow> bool" where
  "under dir path = (path = dir \<or> HasPrefix path (dir @ ''/''))"

definition os_RemoveAll :: "env \<Rightarrow> string \<Rightarrow> world \<Rightarrow> error option \<times> world" where
  "os_RemoveAll E path =
     lib_call E (OsRemoveAll path)
       (\<lambda>s. (None, s\<lparr>os_paths := filter (\<lambda>q. \<not> under path q) (os_paths s)\<rparr>))"

definition os_MkdirAll :: "env \<Rightarrow> string \<Rightarrow> world \<Rightarrow> error option \<times> world" where
  "os_MkdirAll E path =
     lib_call E (OsMkdirAll path)
       (\<lambda>s. (None, s\<lparr>os_paths := path # os_paths s\<rparr>))"


subsection \<open>Cloning, the registry, the deploy models, chat and kanvas\<close>

text \<open>
  \<open>git.Clone\<close> into a storage (\<open>store\<close> is its directory, empty for the in-memory
  one). It returns no repository when the initialisation fails (as it does with
  \<open>ErrRepositoryAlreadyExists\<close>), a repository without references when the fetch
  fails, and the cloned repository otherwise.
\<close>

definition git_Clone ::
  "env \<Rightarrow> string \<Rightarrow> string \<Rightarrow> string \<Rightarrow> world \<Rightarrow> (nat option \<times> error option) \<times> world" where
  "git_Clone E url root store s =
     (let s1 = s\<lparr>log := log s @ [GitClone url store]\<rparr>;
          a = next_repo s;
          made = (\<lambda>R. s1\<lparr>repos := (repos s)(a := R), next_repo := Suc a,
                      os_paths := (if store = [] then os_paths s else root # store # os_paths s)\<rparr>)
      in case clone_outcome E (length (log s)) of
           Cloned R \<Rightarrow> ((Some a, None), made R)
         | InitFailed e \<Rightarrow> ((None, Some e), s1)
         | FetchFailed e \<Rightarrow> ((Some a, Some e), made empty_repository))"

definition ecr_CreateECRInstance :: "env \<Rightarrow> world \<Rightarrow> error option \<times> world" where
  "ecr_CreateECRInstance E = lib_call E CreateECRInstance (\<lambda>s. (None, s))"

definition ecr_FindImageTagByRegexp ::
  "env \<Rightarrow> string \<Rightarrow> string \<Rightarrow> string \<Rightarrow> string \<Rightarrow> ImageTagVars \<Rightarrow> world
     \<Rightarrow> (string \<times> error option) \<times> world" where
  "ecr_FindImageTagByRegexp E registry repository_name tagRegexp targetRegexp vars s =
     ((ecr_tag E (length (log s)), fault E (length (log s))),
      s\<lparr>log := log s @ [FindImageTagByRegexp registry repository_name tagRegexp targetRegexp vars]\<rparr>)"

definition Destination_GetCurrentRevision ::
  "env \<Rightarrow> string \<Rightarrow> world \<Rightarrow> (string \<times> error option) \<times> world" where
  "Destination_GetCurrentRevision E phaseName s =
     ((current_revision E (length (log s)), fault E (length (log s))),
      s\<lparr>log := log s @ [GetCurrentRevision phaseName]\<rparr>)"

definition modelList_Find :: "env \<Rightarrow> string \<Rightarrow> world \<Rightarrow> error option \<times> world" where
  "modelList_Find E kind = lib_call E (ModelListFind kind) (\<lambda>s. (None, s))"

definition model_Deploy ::
  "env \<Rightarrow> string \<Rightarrow> string \<Rightarrow> DeployOption \<Rightarrow> world \<Rightarrow> error option \<times> world" where
  "model_Deploy E project phaseName opt = lib_call E (ModelDeploy project phaseName opt) (\<lambda>s. (None, s))"

definition client_PostMessage ::
  "env \<Rightarrow> string \<Rightarrow> (string \<times> string) list \<Rightarrow> world \<Rightarrow> error option \<times> world" where
  "client_PostMessage E channel fs = lib_call E (PostMessage channel fs) (\<lambda>s. (None, s))"

definition kanvas_Apply ::
  "env \<Rightarrow> string \<Rightarrow> string \<Rightarrow> ApplyOptions \<Rightarrow> world \<Rightarrow> (error + PullRequest list) \<times> world" where
  "kanvas_Apply E path environment opts s =
     (let r = (case fault E (length (log s)) of
                 Some e \<Rightarrow> Inl e
               | None \<Rightarrow> Inr (apply_result E (length (log s))))
      in (r, s\<lparr>log := log s @ [KanvasApply path environment opts r]\<rparr>))"

section \<open>The git operator (git.go)\<close>

definition getLocalRepoRoot :: "GitOperator \<Rightarrow> string" where
  "getLocalRepoRoot g =
     (if gitRoot g \<noteq> [] then
        (let r1 = ReplaceAll (repo g) ''https://'' [];
             r2 = ReplaceAll r1 ''/'' ''/'';
             r3 = TrimSuffix r2 ''.git''
         in filepath_Join [gitRoot g, r3])
      else [])"

definition Repo :: "GitOperator \<Rightarrow> string" where
  "Repo g = repo g"

text \<open>\<open>Clone\<close> has a pointer receiver: it returns the operator with its new repository.\<close>

definition Clone :: "env \<Rightarrow> GitOperator \<Rightarrow> world \<Rightarrow> (GitOperator \<times> error option) \<times> world" where
  "Clone E g s =
     (let (root, store) =
            (if gitRoot g \<noteq> []
             then (getLocalRepoRoot g, filepath_Join [getLocalRepoRoot g, ''.git''])
             else ([], []))
      in case git_Clone E (Repo g) root store s of
           ((r, err), s1) \<Rightarrow> ((g\<lparr>repository := r\<rparr>, err), s1))"

definition Clean :: "env \<Rightarrow> GitOperator \<Rightarrow> world \<Rightarrow> error option \<times> world" where
  "Clean E g s =
     (let p = getLocalRepoRoot g in
      if p \<noteq> [] then
        (let dotGit = filepath_Join [p, ''.git''] in
         case os_Stat E dotGit s of
           (Some err, s1) \<Rightarrow> (Some (Wrap (''unable to stat '' @ dotGit) err), s1)
         | (None, s1) \<Rightarrow>
             (case os_RemoveAll E p s1 of
                (Some err, s2) \<Rightarrow> (Some (Wrap (''unable to remove '' @ p) err), s2)
              | (None, s2) \<Rightarrow> (None, s2)))
      else (None, s))"

definition DeleteBranch ::
  "env \<Rightarrow> GitOperator \<Rightarrow> string \<Rightarrow> world \<Rightarrow> error option outcome \<times> world" where
  "DeleteBranch E g branch s =
     (case repository g of
        None \<Rightarrow> (Panic, s)
      | Some r \<Rightarrow> (case Storer_RemoveReference E r branch s of (err, s1) \<Rightarrow> (Ret err, s1)))"

text \<open>
  \<open>checkoutMainBranch\<close> has a value receiver: the repository a failed pull makes it
  clone goes to its own copy of the operator and is dropped on return.
\<close>

definition checkoutMainBranch ::
  "env \<Rightarrow> GitOperator \<Rightarrow> world \<Rightarrow> (error + nat) outcome \<times> world" where
  "checkoutMainBranch E g s =
     (case repository g of
        None \<Rightarrow> (Panic, s)
      | Some r \<Rightarrow>
          (case Repository_Worktree E r s of
             (Some err, s1) \<Rightarrow> (Ret (Inl err), s1)
           | (None, s1) \<Rightarrow>
               (let refName = (if defaultBranch g \<noteq> [] then defaultBranch g else ''refs/heads/master'') in
                case Worktree_Checkout E r False refName s1 of
                  (Some err, s2) \<Rightarrow> (Ret (Inl err), s2)
                | (None, s2) \<Rightarrow>
                    (case Worktree_Pull E r s2 of
                       (None, s3) \<Rightarrow> (Ret (Inr r), s3)
                     | (Some err, s3) \<Rightarrow>
                         if err \<noteq> NoErrAlreadyUpToDate
                         then (case Clone E g s3 of (_, s4) \<Rightarrow> (Ret (Inr r), s4))
                         else (Ret (Inr r), s3)))))"

definition createAndCheckoutNewBranch ::
  "env \<Rightarrow> GitOperator \<Rightarrow> string \<Rightarrow> world \<Rightarrow> (error + nat) outcome \<times> world" where
  "createAndCheckoutNewBranch E g branch s =
     (case DeleteBranch E g branch s of
        (Panic, s1) \<Rightarrow> (Panic, s1)
      | (Ret _, s1) \<Rightarrow>
          (case checkoutMainBranch E g s1 of
             (Panic, s2) \<Rightarrow> (Panic, s2)
           | (Ret (Inl err), s2) \<Rightarrow> (Ret (Inl err), s2)
           | (Ret (Inr w), s2) \<Rightarrow>
               (case Worktree_Checkout E w True branch s2 of
                  (Some err, s3) \<Rightarrow> (Ret (Inl err), s3)
                | (None, s3) \<Rightarrow> (Ret (Inr w), s3))))"

text \<open>
  The loop of \<open>verify\<close> over the status map. Go visits a map in no fixed order; the
  list is the order of one visit, and the result is the same for every order.
\<close>

fun verify_loop :: "(string \<times> FileStatus) list \<Rightarrow> error option" where
  "verify_loop [] = None"
| "verify_loop ((path, st) # rest) =
     (if Staging st \<noteq> Modified then Some (New ''There are some extra file updates'')
      else verify_loop rest)"

definition verify :: "env \<Rightarrow> nat \<Rightarrow> world \<Rightarrow> error option \<times> world" where
  "verify E w s =
     (case Worktree_Status E w s of
        (Inl err, s1) \<Rightarrow> (Some err, s1)
      | (Inr st, s1) \<Rightarrow> (verify_loop st, s1))"

subsection \<open>The overwrite strategies\<close>

text \<open>
  The loop of \<open>KustomizationOverWrite.Update\<close> over \<open>obj.Images\<close>: the updated list
  and the flag \<open>updated\<close>.
\<close>

fun images_loop :: "string \<Rightarrow> string \<Rightarrow> Image list \<Rightarrow> Image list \<times> bool" where
  "images_loop tag targetTag [] = ([], False)"
| "images_loop tag targetTag (img # rest) =
     (case images_loop tag targetTag rest of
        (rest', updated) \<Rightarrow>
          if Image.Name img = targetTag
          then (img\<lparr>NewTag := tag\<rparr> # rest', True)
          else (img # rest', updated))"

text \<open>\<open>unmarshal\<close> is \<open>yaml.Unmarshal\<close> into a \<open>types.Kustomization\<close>.\<close>

definition KustomizationOverWrite_Update ::
  "('b \<Rightarrow> error + Kustomization) \<Rightarrow> string \<Rightarrow> string \<Rightarrow> 'b \<Rightarrow> error + Kustomization" where
  "KustomizationOverWrite_Update unmarshal tag targetTag b =
     (case unmarshal b of
        Inl err \<Rightarrow> Inl err
      | Inr obj \<Rightarrow>
          (case images_loop tag targetTag (Images obj) of
             (images, updated) \<Rightarrow>
               if \<not> updated
               then Inr (obj\<lparr>Images := images @
                      [\<lparr>Image.Name = targetTag, NewName = [], NewTag = tag, Digest = []\<rparr>]\<rparr>)
               else Inr (obj\<lparr>Images := images\<rparr>)))"

text \<open>\<open>now\<close> is \<open>time.Now().Format("2006-01-02T15:04:05")\<close>.\<close>

definition MemcachedOverWrite_Update ::
  "('b \<Rightarrow> error + ConfigMap) \<Rightarrow> string \<Rightarrow> 'b \<Rightarrow> error + ConfigMap" where
  "MemcachedOverWrite_Update unmarshal now b =
     (case unmarshal b of
        Inl err \<Rightarrow> Inl err
      | Inr obj \<Rightarrow>
          if Data obj ''MEMCACHED_PREFIX'' \<noteq> None
          then Inr (obj\<lparr>Data := (Data obj)(''MEMCACHED_PREFIX'' \<mapsto> now)\<rparr>)
          else Inr obj)"

text \<open>The call \<open>o.Update(b)\<close> through the interface.\<close>

definition Update :: "env \<Rightarrow> string \<Rightarrow> OverWrite \<Rightarrow> string \<Rightarrow> error + obj" where
  "Update E now ov b =
     (case ov of
        KustomizationOverWrite tag targetTag \<Rightarrow>
          (case KustomizationOverWrite_Update (unmarshal_Kustomization E) tag targetTag b of
             Inl err \<Rightarrow> Inl err
           | Inr obj \<Rightarrow> Inr (KustomizationObj obj))
      | MemcachedOverWrite \<Rightarrow>
          (case MemcachedOverWrite_Update (unmarshal_ConfigMap E) now b of
             Inl err \<Rightarrow> Inl err
           | Inr obj \<Rightarrow> Inr (ConfigMapObj obj)))"

subsection \<open>Staging a rewritten file, and the whole push\<close>

definition commit :: "env \<Rightarrow> nat \<Rightarrow> string \<Rightarrow> OverWrite \<Rightarrow> world \<Rightarrow> error option \<times> world" where
  "commit E w targetFilePath ov s =
     (case Fs_Stat E w targetFilePath s of
        (Some err, s1) \<Rightarrow> (None, s1)
      | (None, s1) \<Rightarrow>
     (case Fs_Open E w targetFilePath s1 of
        (Some err, s2) \<Rightarrow> (Some err, s2)
      | (None, s2) \<Rightarrow>
     (case io_ReadAll E w targetFilePath s2 of
        ((b, Some err), s3) \<Rightarrow> (Some err, s3)
      | ((b, None), s3) \<Rightarrow>
     (case File_Close E w targetFilePath s3 of
        (Some err, s4) \<Rightarrow> (Some err, s4)
      | (None, s4) \<Rightarrow>
     (case Update E (time_Now E (length (log s4))) ov b of
        Inl err \<Rightarrow> (Some err, s4)
      | Inr obj \<Rightarrow>
     (case marshal E obj of
        Inl err \<Rightarrow> (Some err, s4)
      | Inr rb \<Rightarrow>
     (case Fs_Remove E w targetFilePath s4 of
        (Some err, s5) \<Rightarrow> (Some err, s5)
      | (None, s5) \<Rightarrow>
     (case Fs_OpenFile E w targetFilePath s5 of
        (Some err, s6) \<Rightarrow> (Some err, s6)
      | (None, s6) \<Rightarrow>
     (case File_Write E w targetFilePath rb s6 of
        (Some err, s7) \<Rightarrow> (Some err, s7)
      | (None, s7) \<Rightarrow>
     (case File_Write E w targetFilePath [CHR 0x0A] s7 of
        (Some err, s8) \<Rightarrow> (Some err, s8)
      | (None, s8) \<Rightarrow> Worktree_Add E w targetFilePath s8))))))))))"

definition PushDockerImageTag ::
  "env \<Rightarrow> GitOperator \<Rightarrow> string \<Rightarrow> DeployPhase \<Rightarrow> string \<Rightarrow> string \<Rightarrow> world
     \<Rightarrow> (string \<times> error option) outcome \<times> world" where
  "PushDockerImageTag E g ident phase tag targetTag s =
     (let branch = branchName ident (DeployPhase.Name phase) tag in
      case createAndCheckoutNewBranch E g branch s of
        (Panic, s1) \<Rightarrow> (Panic, s1)
      | (Ret (Inl err), s1) \<Rightarrow> (Ret ([], Some err), s1)
      | (Ret (Inr w), s1) \<Rightarrow>
     (case commit E w (Path phase) (KustomizationOverWrite tag targetTag) s1 of
        (Some err, s2) \<Rightarrow> (Ret (branch, Some err), s2)
      | (None, s2) \<Rightarrow>
     (case commit E w (ReplaceAll (Path phase) ''kustomization.yaml'' ''configmap.yaml'')
             MemcachedOverWrite s2 of
        (Some err, s3) \<Rightarrow> (Ret (branch, Some err), s3)
      | (None, s3) \<Rightarrow>
     (case verify E w s3 of
        (Some err, s4) \<Rightarrow> (Ret (branch, Some err), s4)
      | (None, s4) \<Rightarrow>
     (case Worktree_Commit E w
             (''Change docker image tag. target: '' @ Path phase @ '', phase: '' @
              DeployPhase.Name phase @ '', tag: '' @ tag @ ''.'')
             (username g) s4 of
        ((hash, _), s5) \<Rightarrow>
     (case repository g of
        None \<Rightarrow> (Panic, s5)
      | Some r \<Rightarrow>
     (case Storer_SetReference E r branch hash s5 of
        (Some err, s6) \<Rightarrow> (Ret ([], Some err), s6)
      | (None, s6) \<Rightarrow>
     (case Repository_Remote E r ''origin'' s6 of
        (Some err, s7) \<Rightarrow> (Ret (branch, Some err), s7)
      | (None, s7) \<Rightarrow>
     (case Remote_Push E r (branch @ '':'' @ ''refs/heads/'' @ branch) s7 of
        (err, s8) \<Rightarrow> (Ret (branch, err), s8))))))))))"


section \<open>The kanvas strategy (GitOpsPluginKanvas.Prepare)\<close>

definition zero_DeployPhase :: DeployPhase where
  "zero_DeployPhase = \<lparr>DeployPhase.Name = [], Kind = [], Path = [], AutoDeploy = False, NotifyChannel = []\<rparr>"

text \<open>
  Modelled from the spec: \<open>DeployProject.FindPhase\<close> is not among the sources. The
  spec has it resolve the phase by name, an undeclared phase being the one without a
  name that \<open>Prepare\<close> tests for.
\<close>

definition FindPhase :: "DeployProject \<Rightarrow> string \<Rightarrow> DeployPhase" where
  "FindPhase pj name =
     (case find (\<lambda>ph. DeployPhase.Name ph = name) (Phases pj) of
        Some ph \<Rightarrow> ph
      | None \<Rightarrow> zero_DeployPhase)"

text \<open>\<open>var o GitOpsPrepareOutput; o.status = DeployStatusFail\<close>\<close>

definition failed_output :: GitOpsPrepareOutput where
  "failed_output =
     \<lparr>PullRequestID = [], PullRequestNumber = 0, PullRequestHTMLURL = [],
      GitOpsPrepareOutput.Branch = [], status = DeployStatusFail\<rparr>"

text \<open>
  The part of \<open>Prepare\<close> that runs under its deferred \<open>git.Clean()\<close>: from the
  checkout of the default branch to the reading of the tool's pull requests.
\<close>

definition Prepare_apply ::
  "env \<Rightarrow> GitOperator \<Rightarrow> string \<Rightarrow> User \<Rightarrow> string \<Rightarrow> DeployPhase \<Rightarrow> string \<Rightarrow> world
     \<Rightarrow> (GitOpsPrepareOutput \<times> error option) outcome \<times> world" where
  "Prepare_apply E git1 phase assigner tag ph head s =
     (case checkoutMainBranch E git1 s of
        (Panic, s1) \<Rightarrow> (Panic, s1)
      | (Ret (Inl err), s1) \<Rightarrow> (Ret (failed_output, Some err), s1)
      | (Ret (Inr wt), s1) \<Rightarrow>
     (let tmpdir = filepath_Join [getLocalRepoRoot git1, ''.kanvastmp''] in
      case os_MkdirAll E tmpdir s1 of
        (Some err, s2) \<Rightarrow>
          (Ret (failed_output, Some (Wrap ''failed to create .kanvastmp directory'' err)), s2)
      | (None, s2) \<Rightarrow>
     (let applyOpts =
            \<lparr>SkippedComponents = [(''image'', [(''tag'', tag), (''id'', tag)]), (''prereq'', [])],
             GitUserName = username git1,
             PullRequestHead = head,
             EnvVars = [(''TMPDIR'', tmpdir),
                        (''GITHUB_TOKEN'', getenv E ''CONFIG_GITHUB_ACCESS_TOKEN'')],
             PullRequestAssigneeIDs =
               (if GitHubNodeID assigner \<noteq> [] then [GitHubNodeID assigner] else [])\<rparr>;
          path = (if Path ph = [] then ''kanvas.yaml''
                  else if filepath_Base (Path ph) \<noteq> ''kanvas.yaml''
                  then filepath_Join [Path ph, ''kanvas.yaml'']
                  else Path ph);
          realPath = filepath_Join [getLocalRepoRoot git1, path]
      in case kanvas_Apply E realPath phase applyOpts s2 of
        (Inl err, s3) \<Rightarrow> (Ret (failed_output, Some err), s3)
      | (Inr prs, s3) \<Rightarrow>
          if length prs = 0 then
            (Ret (failed_output\<lparr>status := DeployStatusAlready\<rparr>, None), s3)
          else if length prs > 1 then
            (Ret (failed_output,
               Some (New ''gocat does not yet support multiple pull requests created by kanvas'')), s3)
          else
            (let pr = prs ! 0 in
             case Atoi (Number pr) of
               None \<Rightarrow>
                 (Ret (failed_output,
                    Some (Wrap ''failed to convert pull request number to int''
                            (Lib ''strconv.Atoi''))), s3)
             | Some prNum \<Rightarrow>
                 (Ret (\<lparr>PullRequestID = NodeID pr,
                        PullRequestNumber = prNum,
                        PullRequestHTMLURL = HTMLURL pr,
                        GitOpsPrepareOutput.Branch = head,
                        status = DeployStatusSuccess\<rparr>, None), s3)))))"

text \<open>
  \<open>Prepare\<close>. The deferred \<open>Clean\<close> runs on every way out of \<open>Prepare_apply\<close>, a
  panic included; what it returns is printed and dropped.
\<close>

definition Prepare ::
  "env \<Rightarrow> GitOpsPluginKanvas \<Rightarrow> DeployProject \<Rightarrow> string \<Rightarrow> string \<Rightarrow> User \<Rightarrow> string \<Rightarrow> world
     \<Rightarrow> (GitOpsPrepareOutput \<times> error option) outcome \<times> world" where
  "Prepare E k pj phase branch assigner tag s =
     (case (if tag = [] then
              (case ecr_CreateECRInstance E s of
                 (Some err, s1) \<Rightarrow> (Inl err, s1)
               | (None, s1) \<Rightarrow>
                   (case ecr_FindImageTagByRegexp E (ECRRegistryId pj) (ECRRepository pj)
                           (ImageTagRegexp pj) (TargetRegexp pj)
                           \<lparr>ImageTagVars.Branch = branch, Phase = phase\<rparr> s1 of
                      ((found, Some err), s2) \<Rightarrow> (Inl err, s2)
                    | ((found, None), s2) \<Rightarrow> (Inr found, s2)))
            else (Inr tag, s)) of
        (Inl err, s2) \<Rightarrow> (Ret (failed_output, Some err), s2)
      | (Inr tag, s2) \<Rightarrow>
     (let ph = FindPhase pj phase in
      if DeployPhase.Name ph = [] then
        (Ret (failed_output,
           Some (New (''phase '' @ phase @ '' not found for project '' @ ID pj))), s2)
      else
     (let head = branchName (ID pj) (DeployPhase.Name ph) tag;
          git0 = (git k)\<lparr>repository := None,
                    repo := ''https://github.com/'' @ org (github k) @ ''/'' @
                            gitHubRepository pj @ ''.git''\<rparr>
      in case Clone E git0 s2 of
        ((git1, err), s3) \<Rightarrow>
          (case (case err of
                   None \<Rightarrow> None
                 | Some e \<Rightarrow> if \<not> errors_Is e ErrRepositoryAlreadyExists then Some e else None) of
             Some e \<Rightarrow> (Ret (failed_output, Some (Wrap ''failed to clone repository'' e)), s3)
           | None \<Rightarrow>
               (case Prepare_apply E git1 phase assigner tag ph head s3 of
                  (r, s4) \<Rightarrow> (case Clean E git1 s4 of (_, s5) \<Rightarrow> (r, s5)))))))"

section \<open>The deploy watcher (AutoDeploy.checkAndDeploy)\<close>

text \<open>
  One tick. The receiver's fields are handles to the services whose answers the
  environment gives; the function returns nothing, its effect is the calls it makes.
\<close>

definition checkAndDeploy :: "env \<Rightarrow> DeployProject \<Rightarrow> DeployPhase \<Rightarrow> world \<Rightarrow> world" where
  "checkAndDeploy E dp phase s =
     (case ecr_CreateECRInstance E s of
        (Some err, s1) \<Rightarrow> s1
      | (None, s1) \<Rightarrow>
     (case Destination_GetCurrentRevision E (DeployPhase.Name phase) s1 of
        ((currentTag, Some err), s2) \<Rightarrow> s2
      | ((currentTag, None), s2) \<Rightarrow>
     (case ecr_FindImageTagByRegexp E (ECRRegistryId dp) (ECRRepository dp) (ImageTagRegexp dp)
             (TargetRegexp dp) \<lparr>ImageTagVars.Branch = DefaultBranch dp, Phase = []\<rparr> s2 of
        ((tag, err), s3) \<Rightarrow>
          if currentTag = tag \<or> err \<noteq> None then s3
          else
     (case modelList_Find E (Kind phase) s3 of
        (Some err, s4) \<Rightarrow> s4
      | (None, s4) \<Rightarrow>
     (case model_Deploy E (ID dp) (DeployPhase.Name phase)
             \<lparr>DeployOption.Branch = DefaultBranch dp, Wait = True\<rparr> s4 of
        (Some err, s5) \<Rightarrow> s5
      | (None, s5) \<Rightarrow>
          if NotifyChannel phase \<noteq> [] then
            (case client_PostMessage E (NotifyChannel phase)
                    [(''Project'', ID dp), (''Phase'', DeployPhase.Name phase), (''Tag'', tag)] s5 of
               (_, s6) \<Rightarrow> s6)
          else s5)))))"

section \<open>Decoding and encoding a manifest with yaml.v2\<close>

text \<open>
  What \<open>yaml.Unmarshal\<close> into a \<open>types.Kustomization\<close> and \<open>yaml.Marshal\<close> of it do
  to a parsed document, as the packages document it: a key of the document that no
  field of the struct is tagged with is ignored by the decoder, and the encoder writes
  the fields of the struct, leaving out an empty image list and the empty fields of an
  image entry (\<open>omitempty\<close>). The value of a declared field other than the image list
  is carried as the document has it.
\<close>

definition Kustomization_keys :: "string list" where
  "Kustomization_keys =
     [''apiVersion'', ''kind'', ''metadata'', ''openapi'', ''namePrefix'', ''nameSuffix'',
      ''namespace'', ''commonLabels'', ''labels'', ''commonAnnotations'',
      ''patchesStrategicMerge'', ''patchesJson6902'', ''patches'', ''images'', ''imageTags'',
      ''replacements'', ''replicas'', ''vars'', ''sortOptions'', ''resources'', ''components'',
      ''crds'', ''bases'', ''configMapGenerator'', ''secretGenerator'', ''generatorOptions'',
      ''configurations'', ''generators'', ''transformers'', ''validators'', ''helmCharts'',
      ''helmChartInflationGenerator'', ''helmGlobals'', ''buildMetadata'', ''inventory'']"

definition field_string :: "(string \<times> yaml) list \<Rightarrow> string \<Rightarrow> string option" where
  "field_string kvs key =
     (case map_of kvs key of
        None \<Rightarrow> Some []
      | Some YNull \<Rightarrow> Some []
      | Some (YStr v) \<Rightarrow> Some v
      | Some _ \<Rightarrow> None)"

definition decode_Image :: "yaml \<Rightarrow> Image option" where
  "decode_Image y =
     (case y of
        YMap kvs \<Rightarrow>
          (case (field_string kvs ''name'', field_string kvs ''newName'',
                 field_string kvs ''newTag'', field_string kvs ''digest'') of
             (Some n, Some nn, Some nt, Some d) \<Rightarrow>
               Some \<lparr>Image.Name = n, NewName = nn, NewTag = nt, Digest = d\<rparr>
           | _ \<Rightarrow> None)
      | YNull \<Rightarrow> Some \<lparr>Image.Name = [], NewName = [], NewTag = [], Digest = []\<rparr>
      | _ \<Rightarrow> None)"

fun decode_Images :: "yaml list \<Rightarrow> Image list option" where
  "decode_Images [] = Some []"
| "decode_Images (y # ys) =
     (case decode_Image y of
        None \<Rightarrow> None
      | Some img \<Rightarrow> (case decode_Images ys of None \<Rightarrow> None | Some imgs \<Rightarrow> Some (img # imgs)))"

definition yaml_Unmarshal_Kustomization :: "yaml \<Rightarrow> error + Kustomization" where
  "yaml_Unmarshal_Kustomization doc =
     (case doc of
        YNull \<Rightarrow> Inr \<lparr>Images = [], OtherFields = []\<rparr>
      | YMap kvs \<Rightarrow>
          (let other = filter (\<lambda>(k, v). k \<in> set Kustomization_keys \<and> k \<noteq> ''images'') kvs in
           case map_of kvs ''images'' of
             None \<Rightarrow> Inr \<lparr>Images = [], OtherFields = other\<rparr>
           | Some YNull \<Rightarrow> Inr \<lparr>Images = [], OtherFields = other\<rparr>
           | Some (YSeq items) \<Rightarrow>
               (case decode_Images items of
                  None \<Rightarrow> Inl (Lib ''yaml: unmarshal errors'')
                | Some imgs \<Rightarrow> Inr \<lparr>Images = imgs, OtherFields = other\<rparr>)
           | Some _ \<Rightarrow> Inl (Lib ''yaml: unmarshal errors''))
      | _ \<Rightarrow> Inl (Lib ''yaml: unmarshal errors''))"

definition encode_Image :: "Image \<Rightarrow> yaml" where
  "encode_Image img =
     YMap (filter (\<lambda>(k, v). v \<noteq> YStr [])
       [(''name'', YStr (Image.Name img)), (''newName'', YStr (NewName img)),
        (''newTag'', YStr (NewTag img)), (''digest'', YStr (Digest img))])"

definition yaml_Marshal_Kustomization :: "Kustomization \<Rightarrow> yaml" where
  "yaml_Marshal_Kustomization obj =
     YMap (OtherFields obj @
           (if Images obj = [] then [] else [(''images'', YSeq (map encode_Image (Images obj)))]))"


text \<open>
  \<open>yaml.Unmarshal\<close> and \<open>yaml.Marshal\<close> on the bytes of a file: the library parses the
  text into a document and decodes the document; it encodes the struct as a document
  and emits the document as text. \<open>with_yaml parse emit E\<close> is the environment \<open>E\<close>
  with this library for the manifest, over the parser \<open>parse\<close> and the emitter \<open>emit\<close>.
\<close>

definition with_yaml :: "(string \<Rightarrow> error + yaml) \<Rightarrow> (yaml \<Rightarrow> string) \<Rightarrow> env \<Rightarrow> env" where
  "with_yaml parse emit E =
     E\<lparr>unmarshal_Kustomization :=
         (\<lambda>b. case parse b of
                 Inl err \<Rightarrow> Inl err
               | Inr doc \<Rightarrow> yaml_Unmarshal_Kustomization doc),
       marshal :=
         (\<lambda>obj. case obj of
                   KustomizationObj k \<Rightarrow> Inr (emit (yaml_Marshal_Kustomization k))
                 | ConfigMapObj c \<Rightarrow> marshal E obj)\<rparr>"


text \<open>
  The reference the operator checks out as its main branch, and any number of commits
  made on a worktree one after the other, whatever each returns.
\<close>

definition mainRef :: "GitOperator \<Rightarrow> string" where
  "mainRef g = (if defaultBranch g \<noteq> [] then defaultBranch g else ''refs/heads/master'')"

fun commits :: "env \<Rightarrow> nat \<Rightarrow> string \<Rightarrow> string list \<Rightarrow> world \<Rightarrow> world" where
  "commits E w author [] s = s"
| "commits E w author (msg # msgs) s = commits E w author msgs (snd (Worktree_Commit E w msg author s))"

section \<open>Traces\<close>

text \<open>The calls made between two worlds, and the kinds of call the claims speak of.\<close>

definition emitted :: "world \<Rightarrow> world \<Rightarrow> event list" where
  "emitted s s' = drop (length (log s)) (log s')"

fun is_publish :: "event \<Rightarrow> bool" where
  "is_publish (WorktreeCommit w msg author) = True"
| "is_publish (StorerSetReference r name target) = True"
| "is_publish (RemotePush r refspec) = True"
| "is_publish ev = False"

fun is_status :: "event \<Rightarrow> bool" where
  "is_status (WorktreeStatus w r) = True"
| "is_status ev = False"

fun is_apply :: "event \<Rightarrow> bool" where
  "is_apply (KanvasApply path environment opts r) = True"
| "is_apply ev = False"

text \<open>The runs of the kanvas tool among some calls: the options given and the result.\<close>

fun apply_calls :: "event list \<Rightarrow> (ApplyOptions \<times> (error + PullRequest list)) list" where
  "apply_calls [] = []"
| "apply_calls (KanvasApply path environment opts r # evs) = (opts, r) # apply_calls evs"
| "apply_calls (ev # evs) = apply_calls evs"

text \<open>The calls of \<open>checkoutMainBranch\<close> and the calls of \<open>commit\<close>.\<close>

fun is_checkout_main :: "event \<Rightarrow> bool" where
  "is_checkout_main (RepositoryWorktree r) = True"
| "is_checkout_main (WorktreeCheckout w create branch) = (\<not> create)"
| "is_checkout_main (WorktreePull w) = True"
| "is_checkout_main (GitClone url store) = True"
| "is_checkout_main ev = False"

fun is_staging :: "event \<Rightarrow> bool" where
  "is_staging (FsStat w path) = True"
| "is_staging (FsOpen w path) = True"
| "is_staging (FsReadAll w path) = True"
| "is_staging (FsClose w path) = True"
| "is_staging (FsRemove w path) = True"
| "is_staging (FsOpenFile w path) = True"
| "is_staging (FsWrite w path b) = True"
| "is_staging (WorktreeAdd w path) = True"
| "is_staging ev = False"

text \<open>A call that carries a branch name carries the name \<open>b\<close>.\<close>

fun names_branch :: "string \<Rightarrow> event \<Rightarrow> bool" where
  "names_branch b (WorktreeCheckout w create n) = (\<not> create \<or> n = b)"
| "names_branch b (StorerRemoveReference r n) = (n = b)"
| "names_branch b (StorerSetReference r n h) = (n = b)"
| "names_branch b (RemotePush r refspec) = (refspec = b @ '':refs/heads/'' @ b)"
| "names_branch b (KanvasApply path environment opts res) = (PullRequestHead opts = b)"
| "names_branch b ev = True"

fun is_deploy :: "event \<Rightarrow> bool" where
  "is_deploy (ModelDeploy project phaseName opt) = True"
| "is_deploy ev = False"

fun is_notification :: "event \<Rightarrow> bool" where
  "is_notification (PostMessage channel fs) = True"
| "is_notification ev = False"

fun is_deletion :: "event \<Rightarrow> bool" where
  "is_deletion (OsRemoveAll path) = True"
| "is_deletion ev = False"

fun is_branch_creation :: "event \<Rightarrow> bool" where
  "is_branch_creation (WorktreeCheckout w create branch) = create"
| "is_branch_creation ev = False"


section \<open>A concrete deployment, for running the code\<close>

definition example_manifest :: string where
  "example_manifest = ''images: [{name: app, newTag: v1}]''"

definition example_repository :: Repository where
  "example_repository =
     \<lparr>refs = [''refs/heads/main'' \<mapsto> ''1111''],
      HEAD = ''refs/heads/main'',
      files = [''overlays/staging/kustomization.yaml'' \<mapsto> example_manifest]\<rparr>"

definition example_status :: "(string \<times> FileStatus) list" where
  "example_status =
     [(''overlays/staging/kustomization.yaml'', \<lparr>Staging = Modified, Worktree = Unmodified\<rparr>),
      (''notes.txt'', \<lparr>Staging = Added, Worktree = Unmodified\<rparr>)]"

definition example_env :: env where
  "example_env =
     \<lparr>fault = (\<lambda>t. None),
      clone_outcome = (\<lambda>t. Cloned example_repository),
      pull_result = (\<lambda>t. ''2222''),
      tree_of = (\<lambda>h. [''overlays/staging/kustomization.yaml'' \<mapsto> example_manifest]),
      status_result = (\<lambda>t. example_status),
      commit_hash = (\<lambda>t. ''3333''),
      unmarshal_Kustomization =
        (\<lambda>b. Inr \<lparr>Images = [\<lparr>Image.Name = ''app'', NewName = [], NewTag = ''v1'', Digest = []\<rparr>],
                   OtherFields = []\<rparr>),
      unmarshal_ConfigMap =
        (\<lambda>b. Inr \<lparr>APIVersion = ''v1'', ConfigMap.Kind = ''ConfigMap'', Metadata = Map.empty,
                   Data = Map.empty\<rparr>),
      marshal = (\<lambda>obj. Inr ''images: [{name: app, newTag: v2}]''),
      time_Now = (\<lambda>t. ''2024-01-01T00:00:00''),
      ecr_tag = (\<lambda>t. ''v2''),
      current_revision = (\<lambda>t. ''v1''),
      apply_result = (\<lambda>t. []),
      getenv = (\<lambda>k. [])\<rparr>"

definition example_world :: world where
  "example_world =
     \<lparr>repos = (\<lambda>a. example_repository), next_repo = 1, os_paths = [], log = []\<rparr>"

definition example_operator :: GitOperator where
  "example_operator =
     \<lparr>auth = (''bot'', ''token''),
      repo = ''https://github.com/zaiminc/config.git'',
      repository = Some 0,
      username = ''bot'',
      defaultBranch = ''refs/heads/main'',
      gitRoot = []\<rparr>"

definition example_phase :: DeployPhase where
  "example_phase =
     \<lparr>DeployPhase.Name = ''staging'', Kind = ''kanvas'',
      Path = ''overlays/staging/kustomization.yaml'',
      AutoDeploy = True, NotifyChannel = ''deploy''\<rparr>"

definition example_project :: DeployProject where
  "example_project =
     \<lparr>ID = ''myapp'', gitHubRepository = ''infra'', Phases = [example_phase],
      ECRRegistryId = ''123'', ECRRepository = ''myapp'', ImageTagRegexp = ''^v'',
      TargetRegexp = [], DefaultBranch = ''main''\<rparr>"

definition example_plugin :: GitOpsPluginKanvas where
  "example_plugin = \<lparr>github = \<lparr>org = ''zaiminc''\<rparr>, git = example_operator\<rparr>"


definition example_user :: User where
  "example_user = \<lparr>GitHubNodeID = ''U1''\<rparr>"

definition example_pull_request :: PullRequest where
  "example_pull_request =
     \<lparr>Number = ''7'', NodeID = ''PR_1'', HTMLURL = ''https://github.com/zaiminc/infra/pull/7''\<rparr>"

definition one_pull_request_env :: env where
  "one_pull_request_env = example_env\<lparr>apply_result := (\<lambda>t. [example_pull_request])\<rparr>"

text \<open>A pull request whose number is not a decimal integer.\<close>

definition unnumbered_pull_request :: PullRequest where
  "unnumbered_pull_request =
     \<lparr>Number = ''#7'', NodeID = ''PR_1'', HTMLURL = ''https://github.com/zaiminc/infra/pull/7''\<rparr>"

definition unnumbered_env :: env where
  "unnumbered_env = example_env\<lparr>apply_result := (\<lambda>t. [unnumbered_pull_request])\<rparr>"

text \<open>The registry and the running revision agree.\<close>

definition deployed_env :: env where
  "deployed_env = example_env\<lparr>current_revision := (\<lambda>t. ''v2'')\<rparr>"

text \<open>An operator with a local root, without and with its repository on disk.\<close>

definition disk_operator :: GitOperator where
  "disk_operator = example_operator\<lparr>gitRoot := ''/data''\<rparr>"

definition disk_world :: world where
  "disk_world =
     example_world\<lparr>os_paths := [''/data/github.com/zaiminc/config'',
                                  ''/data/github.com/zaiminc/config/.git'',
                                  ''/data/other'']\<rparr>"

text \<open>
  A manifest with an image entry, a field kustomize declares and one it does not:
  \<^verbatim>\<open>resources: [deployment.yaml]\<close>, \<^verbatim>\<open>images: [{name: app, newTag: v2}]\<close>,
  \<^verbatim>\<open>x-team: payments\<close>.
\<close>

definition example_document :: yaml where
  "example_document =
     YMap [(''resources'', YSeq [YStr ''deployment.yaml'']),
           (''images'', YSeq [YMap [(''name'', YStr ''app''), (''newTag'', YStr ''v2'')]]),
           (''x-team'', YStr ''payments'')]"

text \<open>
  An emitter of documents in YAML's flow style, the text of the manifest above, a
  parser that reads that text, and a worktree that holds it.
\<close>

fun yaml_text :: "yaml \<Rightarrow> string"
  and yaml_items :: "yaml list \<Rightarrow> string"
  and yaml_fields :: "(string \<times> yaml) list \<Rightarrow> string" where
  "yaml_text YNull = ''null''"
| "yaml_text (YStr v) = v"
| "yaml_text (YSeq items) = ''['' @ yaml_items items @ '']''"
| "yaml_text (YMap kvs) = ''{'' @ yaml_fields kvs @ ''}''"
| "yaml_items [] = []"
| "yaml_items [y] = yaml_text y"
| "yaml_items (y # z # ys) = yaml_text y @ '', '' @ yaml_items (z # ys)"
| "yaml_fields [] = []"
| "yaml_fields [(k, v)] = k @ '': '' @ yaml_text v"
| "yaml_fields ((k, v) # kv # kvs) = k @ '': '' @ yaml_text v @ '', '' @ yaml_fields (kv # kvs)"

definition example_text :: string where
  "example_text =
     ''{resources: [deployment.yaml], images: [{name: app, newTag: v2}], x-team: payments}'' @
     [CHR 0x0A]"

definition example_parse :: "string \<Rightarrow> error + yaml" where
  "example_parse b =
     (if b = example_text then Inr example_document
      else Inl (Lib ''yaml: did not find expected node content''))"

definition manifest_world :: world where
  "manifest_world =
     example_world\<lparr>repos := (\<lambda>a. example_repository
        \<lparr>files := [''overlays/staging/kustomization.yaml'' \<mapsto> example_text]\<rparr>)\<rparr>"

text \<open>
  Origin's main branch has moved to another commit, which a clone gets, and the tenth
  call made (the pull of a second \<open>createAndCheckoutNewBranch\<close>, after a first one and
  one commit) fails.
\<close>

definition moved_repository :: Repository where
  "moved_repository = example_repository\<lparr>refs := [''refs/heads/main'' \<mapsto> ''9999'']\<rparr>"

definition failed_pull_env :: env where
  "failed_pull_env =
     example_env\<lparr>fault := (\<lambda>t. if t = 9 then Some (Lib ''non-fast-forward update'') else None),
                  clone_outcome := (\<lambda>t. Cloned moved_repository)\<rparr>"

text \<open>A worktree whose only change is the rewritten manifest.\<close>

definition clean_env :: env where
  "clean_env =
     example_env\<lparr>status_result := (\<lambda>t. [(''overlays/staging/kustomization.yaml'',
                                            \<lparr>Staging = Modified, Worktree = Unmodified\<rparr>)])\<rparr>"

section \<open>Evaluating the definitions\<close>

lemmas prim_defs =
  lib_call_def upd_repo_def Let_def
  Storer_RemoveReference_def Storer_SetReference_def Repository_Worktree_def
  Worktree_Checkout_def Worktree_Pull_def Worktree_Status_def Worktree_Commit_def
  Worktree_Add_def Repository_Remote_def Remote_Push_def Fs_Stat_def Fs_Open_def
  io_ReadAll_def File_Close_def Fs_Remove_def Fs_OpenFile_def File_Write_def
  os_Stat_def os_RemoveAll_def os_MkdirAll_def git_Clone_def ecr_CreateECRInstance_def
  ecr_FindImageTagByRegexp_def Destination_GetCurrentRevision_def modelList_Find_def
  model_Deploy_def client_PostMessage_def kanvas_Apply_def

lemmas example_defs =
  example_env_def example_world_def example_operator_def example_phase_def
  example_project_def example_plugin_def example_repository_def example_status_def
  example_manifest_def example_user_def example_pull_request_def one_pull_request_env_def
  unnumbered_pull_request_def unnumbered_env_def deployed_env_def disk_operator_def
  disk_world_def clean_env_def example_document_def
  with_yaml_def example_text_def example_parse_def manifest_world_def moved_repository_def
  failed_pull_env_def

lemmas code_defs =
  PushDockerImageTag_def createAndCheckoutNewBranch_def DeleteBranch_def
  checkoutMainBranch_def commit_def verify_def Update_def KustomizationOverWrite_Update_def
  MemcachedOverWrite_Update_def Clone_def Clean_def Repo_def getLocalRepoRoot_def
  branchName_def emitted_def HasPrefix_def mainRef_def Prepare_def Prepare_apply_def
  FindPhase_def checkAndDeploy_def failed_output_def

lemmas path_defs =
  filepath_Join_def filepath_Clean_def filepath_Base_def TrimSuffix_def HasSuffix_def

section \<open>The calls a function makes\<close>

lemma git_log:
  "Storer_RemoveReference E r name s = (e, s') \<Longrightarrow> log s' = log s @ [StorerRemoveReference r name]"
  "Storer_SetReference E r name target s = (e, s') \<Longrightarrow> log s' = log s @ [StorerSetReference r name target]"
  "Repository_Worktree E r s = (e, s') \<Longrightarrow> log s' = log s @ [RepositoryWorktree r]"
  "Worktree_Checkout E r create branch s = (e, s') \<Longrightarrow> log s' = log s @ [WorktreeCheckout r create branch]"
  "Worktree_Pull E r s = (e, s') \<Longrightarrow> log s' = log s @ [WorktreePull r]"
  "Worktree_Status E r s = (res, s') \<Longrightarrow> log s' = log s @ [WorktreeStatus r res]"
  "Worktree_Commit E r msg author s = (he, s') \<Longrightarrow> log s' = log s @ [WorktreeCommit r msg author]"
  "Worktree_Add E r path s = (e, s') \<Longrightarrow> log s' = log s @ [WorktreeAdd r path]"
  "Repository_Remote E r name s = (e, s') \<Longrightarrow> log s' = log s @ [RepositoryRemote r name]"
  "Remote_Push E r refspec s = (e, s') \<Longrightarrow> log s' = log s @ [RemotePush r refspec]"
  "git_Clone E url root store s = (re, s') \<Longrightarrow> log s' = log s @ [GitClone url store]"
  by (auto simp: prim_defs split: option.splits if_splits clone_outcome.splits)

lemma fs_log:
  "Fs_Stat E r path s = (e, s') \<Longrightarrow> log s' = log s @ [FsStat r path]"
  "Fs_Open E r path s = (e, s') \<Longrightarrow> log s' = log s @ [FsOpen r path]"
  "io_ReadAll E r path s = (be, s') \<Longrightarrow> log s' = log s @ [FsReadAll r path]"
  "File_Close E r path s = (e, s') \<Longrightarrow> log s' = log s @ [FsClose r path]"
  "Fs_Remove E r path s = (e, s') \<Longrightarrow> log s' = log s @ [FsRemove r path]"
  "Fs_OpenFile E r path s = (e, s') \<Longrightarrow> log s' = log s @ [FsOpenFile r path]"
  "File_Write E r path b s = (e, s') \<Longrightarrow> log s' = log s @ [FsWrite r path b]"
  "os_Stat E path s = (e, s') \<Longrightarrow> log s' = log s @ [OsStat path]"
  "os_RemoveAll E path s = (e, s') \<Longrightarrow> log s' = log s @ [OsRemoveAll path]"
  "os_MkdirAll E path s = (e, s') \<Longrightarrow> log s' = log s @ [OsMkdirAll path]"
  by (auto simp: prim_defs split: option.splits if_splits)

lemma svc_log:
  "ecr_CreateECRInstance E s = (e, s') \<Longrightarrow> log s' = log s @ [CreateECRInstance]"
  "ecr_FindImageTagByRegexp E a b c d vars s = (te, s') \<Longrightarrow> log s' = log s @ [FindImageTagByRegexp a b c d vars]"
  "Destination_GetCurrentRevision E ph s = (te, s') \<Longrightarrow> log s' = log s @ [GetCurrentRevision ph]"
  "modelList_Find E kind s = (e, s') \<Longrightarrow> log s' = log s @ [ModelListFind kind]"
  "model_Deploy E pj ph opt s = (e, s') \<Longrightarrow> log s' = log s @ [ModelDeploy pj ph opt]"
  "client_PostMessage E ch fs s = (e, s') \<Longrightarrow> log s' = log s @ [PostMessage ch fs]"
  "kanvas_Apply E path en opts s = (res, s') \<Longrightarrow> log s' = log s @ [KanvasApply path en opts res]"
  by (auto simp: prim_defs split: option.splits if_splits)


lemma emitted_append [simp]: "log s' = log s @ evs \<Longrightarrow> emitted s s' = evs"
  by (simp add: emitted_def)

lemma checkout_main_quiet:
  "is_checkout_main e \<Longrightarrow>
   \<not> is_publish e \<and> \<not> is_status e \<and> \<not> is_apply e \<and> \<not> is_branch_creation e \<and>
   \<not> is_deletion e \<and> names_branch b e"
  by (cases e) auto

lemma staging_quiet:
  "is_staging e \<Longrightarrow> \<not> is_publish e \<and> \<not> is_status e \<and> \<not> is_apply e \<and> names_branch b e"
  by (cases e) auto

lemma commit_events:
  "commit E w path ov s = (r, s') \<Longrightarrow>
   \<exists>evs. log s' = log s @ evs \<and> (\<forall>e\<in>set evs. is_staging e)"
  unfolding commit_def
  by (auto split: prod.splits option.splits sum.splits dest!: fs_log git_log)

lemma commit_log:
  assumes "commit E w path ov s = (r, s')"
  shows "\<exists>evs. log s' = log s @ evs \<and>
           (\<forall>e\<in>set evs. \<not> is_publish e \<and> \<not> is_status e \<and> names_branch b e)"
  using commit_events [OF assms] staging_quiet by blast

lemma Clone_log:
  "Clone E g s = (r, s') \<Longrightarrow> \<exists>url store. log s' = log s @ [GitClone url store]"
  unfolding Clone_def
  by (auto simp: Let_def split: prod.splits if_splits dest!: git_log)

lemma checkoutMainBranch_events:
  "checkoutMainBranch E g s = (r, s') \<Longrightarrow>
   \<exists>evs. log s' = log s @ evs \<and> (\<forall>e\<in>set evs. is_checkout_main e)"
  unfolding checkoutMainBranch_def
  by (auto simp: Let_def split: prod.splits option.splits sum.splits if_splits
      dest!: git_log Clone_log)

lemma createAndCheckoutNewBranch_log:
  assumes run: "createAndCheckoutNewBranch E g b s = (r, s')"
  shows "\<exists>evs. log s' = log s @ evs \<and>
           (\<forall>e\<in>set evs. \<not> is_publish e \<and> \<not> is_status e \<and> names_branch b e)"
proof (cases "repository g")
  case None
  with run have "s' = s" by (simp add: createAndCheckoutNewBranch_def DeleteBranch_def)
  then show ?thesis by simp
next
  case (Some w)
  obtain d sa where c1: "Storer_RemoveReference E w b s = (d, sa)"
    by (cases "Storer_RemoveReference E w b s")
  have la: "log sa = log s @ [StorerRemoveReference w b]" using c1 by (rule git_log)
  obtain m sb where c2: "checkoutMainBranch E g sa = (m, sb)"
    by (cases "checkoutMainBranch E g sa")
  obtain mid where lb: "log sb = log sa @ mid" "\<forall>e\<in>set mid. is_checkout_main e"
    using checkoutMainBranch_events [OF c2] by blast
  from run Some c1 c2
  have "s' = sb \<or> (\<exists>w'. log s' = log sb @ [WorktreeCheckout w' True b])"
    by (auto simp: createAndCheckoutNewBranch_def DeleteBranch_def
        split: outcome.splits sum.splits option.splits prod.splits dest!: git_log)
  with la lb checkout_main_quiet [of _ b] show ?thesis by auto
qed

lemma verify_loop_bad:
  "\<exists>x\<in>set st. Staging (snd x) \<noteq> Modified \<Longrightarrow>
   verify_loop st = Some (New ''There are some extra file updates'')"
  by (induction st rule: verify_loop.induct) auto

lemma verify_log:
  "verify E w s = (r, s') \<Longrightarrow>
   \<exists>res. log s' = log s @ [WorktreeStatus w res] \<and>
     (\<forall>st. res = Inr st \<longrightarrow> r = verify_loop st)"
  unfolding verify_def
  by (auto split: prod.splits sum.splits dest!: git_log)

lemma Clean_log:
  "Clean E g s = (r, s') \<Longrightarrow>
   \<exists>evs. log s' = log s @ evs \<and> (\<forall>e\<in>set evs. \<not> is_apply e \<and> names_branch b e)"
  unfolding Clean_def
  by (auto simp: Let_def split: prod.splits option.splits if_splits dest!: fs_log)

lemma apply_calls_append: "apply_calls (xs @ ys) = apply_calls xs @ apply_calls ys"
  by (induction xs rule: apply_calls.induct) auto

lemma apply_calls_none: "\<forall>e\<in>set evs. \<not> is_apply e \<Longrightarrow> apply_calls evs = []"
  by (induction evs rule: apply_calls.induct) auto

text \<open>
  Where \<open>PushDockerImageTag\<close> stops: before the status query, at a status query that
  \<open>verify\<close> rejects, or after one it accepts.
\<close>

lemma PushDockerImageTag_trace:
  assumes run: "PushDockerImageTag E g ident phase tag targetTag s = (r, s')"
    and b: "b = branchName ident (DeployPhase.Name phase) tag"
  obtains
    (early) pre where "emitted s s' = pre"
      "\<forall>e\<in>set pre. \<not> is_publish e \<and> \<not> is_status e \<and> names_branch b e"
  | (rejected) pre w res err where "emitted s s' = pre @ [WorktreeStatus w res]"
      "\<forall>e\<in>set pre. \<not> is_publish e \<and> \<not> is_status e \<and> names_branch b e"
      "r = Ret (b, Some err)" "\<forall>st. res = Inr st \<longrightarrow> verify_loop st = Some err"
  | (accepted) pre w res post where "emitted s s' = pre @ WorktreeStatus w res # post"
      "\<forall>e\<in>set pre. \<not> is_publish e \<and> \<not> is_status e \<and> names_branch b e"
      "\<forall>st. res = Inr st \<longrightarrow> verify_loop st = None"
      "\<forall>e\<in>set post. \<not> is_status e \<and> names_branch b e"
proof -
  note defs = PushDockerImageTag_def Let_def b [symmetric]
  obtain r1 s1 where c1: "createAndCheckoutNewBranch E g b s = (r1, s1)"
    by (cases "createAndCheckoutNewBranch E g b s")
  obtain evs1 where l1: "log s1 = log s @ evs1"
      "\<forall>e\<in>set evs1. \<not> is_publish e \<and> \<not> is_status e \<and> names_branch b e"
    using createAndCheckoutNewBranch_log [OF c1] by blast
  show ?thesis
  proof (cases "\<exists>w0. r1 = Ret (Inr w0)")
    case False
    with run c1 have "s' = s1"
      by (auto simp: defs split: outcome.splits sum.splits)
    with l1 have "emitted s s' = evs1" by simp
    then show ?thesis using l1(2) by (rule early)
  next
    case True
    then obtain w0 where r1: "r1 = Ret (Inr w0)" by blast
    obtain e2 s2 where c2:
      "commit E w0 (Path phase) (KustomizationOverWrite tag targetTag) s1 = (e2, s2)"
      by (cases "commit E w0 (Path phase) (KustomizationOverWrite tag targetTag) s1")
    obtain evs2 where l2: "log s2 = log s1 @ evs2"
        "\<forall>e\<in>set evs2. \<not> is_publish e \<and> \<not> is_status e \<and> names_branch b e"
      using commit_log [OF c2] by blast
    have pre2: "\<forall>e\<in>set (evs1 @ evs2). \<not> is_publish e \<and> \<not> is_status e \<and> names_branch b e"
      using l1(2) l2(2) by (simp add: ball_Un)
    show ?thesis
    proof (cases e2)
      case (Some err)
      with run c1 r1 c2 have "s' = s2" by (simp add: defs)
      with l1 l2 have "emitted s s' = evs1 @ evs2" by simp
      then show ?thesis using pre2 by (rule early)
    next
      case None
      note e2 = this
      obtain e3 s3 where c3:
        "commit E w0 (ReplaceAll (Path phase) ''kustomization.yaml'' ''configmap.yaml'')
           MemcachedOverWrite s2 = (e3, s3)"
        by (cases "commit E w0 (ReplaceAll (Path phase) ''kustomization.yaml'' ''configmap.yaml'')
           MemcachedOverWrite s2")
      obtain evs3 where l3: "log s3 = log s2 @ evs3"
          "\<forall>e\<in>set evs3. \<not> is_publish e \<and> \<not> is_status e \<and> names_branch b e"
        using commit_log [OF c3] by blast
      let ?pre = "evs1 @ evs2 @ evs3"
      have pre: "\<forall>e\<in>set ?pre. \<not> is_publish e \<and> \<not> is_status e \<and> names_branch b e"
        using l1(2) l2(2) l3(2) by (simp add: ball_Un)
      show ?thesis
      proof (cases e3)
        case (Some err)
        with run c1 r1 c2 e2 c3 have "s' = s3" by (simp add: defs)
        with l1 l2 l3 have "emitted s s' = ?pre" by simp
        then show ?thesis using pre by (rule early)
      next
        case None
        note e3 = this
        obtain e4 s4 where c4: "verify E w0 s3 = (e4, s4)"
          by (cases "verify E w0 s3")
        obtain res where l4: "log s4 = log s3 @ [WorktreeStatus w0 res]"
            "\<forall>st. res = Inr st \<longrightarrow> e4 = verify_loop st"
          using verify_log [OF c4] by blast
        show ?thesis
        proof (cases e4)
          case (Some err)
          with run c1 r1 c2 e2 c3 e3 c4 have out: "s' = s4" "r = Ret (b, Some err)"
            by (simp_all add: defs)
          from out l1 l2 l3 l4 have em: "emitted s s' = ?pre @ [WorktreeStatus w0 res]"
            by simp
          from l4(2) Some have "\<forall>st. res = Inr st \<longrightarrow> verify_loop st = Some err" by simp
          with em pre out(2) show ?thesis by (rule rejected)
        next
          case None
          with run c1 r1 c2 e2 c3 e3 c4
          have "\<exists>post. log s' = log s4 @ post \<and> (\<forall>e\<in>set post. \<not> is_status e \<and> names_branch b e)"
            by (auto simp: defs split: prod.splits option.splits dest!: git_log)
          then obtain post where l5: "log s' = log s4 @ post"
              "\<forall>e\<in>set post. \<not> is_status e \<and> names_branch b e"
            by blast
          from l1 l2 l3 l4 l5
          have em: "emitted s s' = ?pre @ WorktreeStatus w0 res # post" by simp
          from l4(2) None have "\<forall>st. res = Inr st \<longrightarrow> verify_loop st = None" by simp
          with em pre show ?thesis using l5(2) by (rule accepted)
        qed
      qed
    qed
  qed
qed

lemma PushDockerImageTag_branch:
  "PushDockerImageTag E g ident phase tag targetTag s = (Ret (b, err), s') \<Longrightarrow>
   b = branchName ident (DeployPhase.Name phase) tag \<or> (b = [] \<and> err \<noteq> None)"
  by (auto simp: PushDockerImageTag_def Let_def
      split: prod.splits outcome.splits sum.splits option.splits)

text \<open>What a call of the kanvas tool inside \<open>Prepare\<close> is given and what becomes of its result.\<close>

lemma Prepare_apply_branch:
  "Prepare_apply E git1 phase assigner tag ph head s = (Ret (out, err), s') \<Longrightarrow>
   status out = DeployStatusSuccess \<Longrightarrow> GitOpsPrepareOutput.Branch out = head"
  by (auto simp: Prepare_apply_def Let_def failed_output_def
      split: prod.splits outcome.splits sum.splits option.splits if_splits)

lemma Prepare_apply_calls:
  assumes run: "Prepare_apply E git1 phase assigner tag ph head s = (r, s')"
  shows "\<exists>evs. log s' = log s @ evs \<and> (\<forall>e\<in>set evs. names_branch head e) \<and>
        (apply_calls evs = [] \<or>
         (\<exists>opts res. apply_calls evs = [(opts, res)] \<and>
            (\<forall>prs. res = Inr prs \<longrightarrow>
               r = (if length prs = 0 then Ret (failed_output\<lparr>status := DeployStatusAlready\<rparr>, None)
                    else if length prs > 1 then
                      Ret (failed_output,
                        Some (New ''gocat does not yet support multiple pull requests created by kanvas''))
                    else (case Atoi (Number (prs ! 0)) of
                            None \<Rightarrow> Ret (failed_output,
                                 Some (Wrap ''failed to convert pull request number to int''
                                         (Lib ''strconv.Atoi'')))
                          | Some prNum \<Rightarrow>
                              Ret (\<lparr>PullRequestID = NodeID (prs ! 0),
                                    PullRequestNumber = prNum,
                                    PullRequestHTMLURL = HTMLURL (prs ! 0),
                                    GitOpsPrepareOutput.Branch = head,
                                    status = DeployStatusSuccess\<rparr>, None))))))"
proof -
  obtain r1 s1 where c1: "checkoutMainBranch E git1 s = (r1, s1)"
    by (cases "checkoutMainBranch E git1 s")
  obtain evs1 where l1: "log s1 = log s @ evs1" "\<forall>e\<in>set evs1. is_checkout_main e"
    using checkoutMainBranch_events [OF c1] by blast
  then have q1: "\<forall>e\<in>set evs1. \<not> is_apply e" "\<forall>e\<in>set evs1. names_branch head e"
    using checkout_main_quiet by blast+
  then have a1: "apply_calls evs1 = []" by (simp add: apply_calls_none)
  show ?thesis
  proof (cases "\<exists>wt. r1 = Ret (Inr wt)")
    case False
    with run c1 have "s' = s1"
      by (auto simp: Prepare_apply_def split: outcome.splits sum.splits)
    with l1 a1 q1 show ?thesis by simp
  next
    case True
    then obtain wt where r1: "r1 = Ret (Inr wt)" by blast
    let ?tmp = "filepath_Join [getLocalRepoRoot git1, ''.kanvastmp'']"
    obtain e2 s2 where c2: "os_MkdirAll E ?tmp s1 = (e2, s2)"
      by (cases "os_MkdirAll E ?tmp s1")
    then have l2: "log s2 = log s1 @ [OsMkdirAll ?tmp]" by (rule fs_log)
    show ?thesis
    proof (cases e2)
      case (Some err)
      with run c1 r1 c2 have "s' = s2" by (simp add: Prepare_apply_def Let_def)
      with l1 l2 a1 q1 show ?thesis by (simp add: apply_calls_append)
    next
      case None
      with run c1 r1 c2 l1 l2 a1 q1 show ?thesis
        by (auto simp: Prepare_apply_def Let_def apply_calls_append
            split: prod.splits sum.splits if_splits option.splits dest!: svc_log)
    qed
  qed
qed

lemma Prepare_calls:
  assumes run: "Prepare E k pj phase branch assigner tag s = (r, s')"
    and head: "head = branchName (ID pj) (DeployPhase.Name (FindPhase pj phase))
                    (if tag = [] then ecr_tag E (Suc (length (log s))) else tag)"
  shows "\<forall>e\<in>set (emitted s s'). names_branch head e"
    and "\<forall>out err. r = Ret (out, err) \<and> status out = DeployStatusSuccess \<longrightarrow>
           GitOpsPrepareOutput.Branch out = head"
    and "apply_calls (emitted s s') = [] \<or>
         (\<exists>opts res. apply_calls (emitted s s') = [(opts, res)] \<and>
            (\<forall>prs. res = Inr prs \<longrightarrow>
               r = (if length prs = 0 then Ret (failed_output\<lparr>status := DeployStatusAlready\<rparr>, None)
                    else if length prs > 1 then
                      Ret (failed_output,
                        Some (New ''gocat does not yet support multiple pull requests created by kanvas''))
                    else (case Atoi (Number (prs ! 0)) of
                            None \<Rightarrow> Ret (failed_output,
                                 Some (Wrap ''failed to convert pull request number to int''
                                         (Lib ''strconv.Atoi'')))
                          | Some prNum \<Rightarrow>
                              Ret (\<lparr>PullRequestID = NodeID (prs ! 0),
                                    PullRequestNumber = prNum,
                                    PullRequestHTMLURL = HTMLURL (prs ! 0),
                                    GitOpsPrepareOutput.Branch = head,
                                    status = DeployStatusSuccess\<rparr>, None)))))"
proof -
  let ?P = "\<lambda>r s'. (\<forall>e\<in>set (emitted s s'). names_branch head e) \<and>
      (\<forall>out err. r = Ret (out, err) \<and> status out = DeployStatusSuccess \<longrightarrow>
           GitOpsPrepareOutput.Branch out = head) \<and>
      (apply_calls (emitted s s') = [] \<or>
         (\<exists>opts res. apply_calls (emitted s s') = [(opts, res)] \<and>
            (\<forall>prs. res = Inr prs \<longrightarrow>
               r = (if length prs = 0 then Ret (failed_output\<lparr>status := DeployStatusAlready\<rparr>, None)
                    else if length prs > 1 then
                      Ret (failed_output,
                        Some (New ''gocat does not yet support multiple pull requests created by kanvas''))
                    else (case Atoi (Number (prs ! 0)) of
                            None \<Rightarrow> Ret (failed_output,
                                 Some (Wrap ''failed to convert pull request number to int''
                                         (Lib ''strconv.Atoi'')))
                          | Some prNum \<Rightarrow>
                              Ret (\<lparr>PullRequestID = NodeID (prs ! 0),
                                    PullRequestNumber = prNum,
                                    PullRequestHTMLURL = HTMLURL (prs ! 0),
                                    GitOpsPrepareOutput.Branch = head,
                                    status = DeployStatusSuccess\<rparr>, None))))))"
  have early: "?P r s'" if "emitted s s' = evs" "\<forall>e\<in>set evs. \<not> is_apply e \<and> names_branch head e"
    "\<exists>e. r = Ret (failed_output, Some e)" for evs
    using that by (auto simp: apply_calls_none failed_output_def)
  let ?resolve = "(if tag = [] then
              (case ecr_CreateECRInstance E s of
                 (Some err, s1) \<Rightarrow> (Inl err, s1)
               | (None, s1) \<Rightarrow>
                   (case ecr_FindImageTagByRegexp E (ECRRegistryId pj) (ECRRepository pj)
                           (ImageTagRegexp pj) (TargetRegexp pj)
                           \<lparr>ImageTagVars.Branch = branch, Phase = phase\<rparr> s1 of
                      ((found, Some err), s2) \<Rightarrow> (Inl err, s2)
                    | ((found, None), s2) \<Rightarrow> (Inr found, s2)))
            else (Inr tag, s))"
  obtain x s2 where c0: "?resolve = (x, s2)" by (cases ?resolve)
  have "\<exists>evs0. log s2 = log s @ evs0 \<and> (\<forall>e\<in>set evs0. \<not> is_apply e \<and> names_branch head e)"
    using c0 by (auto simp: prim_defs split: option.splits if_splits prod.splits)
  then obtain evs0 where l0: "log s2 = log s @ evs0"
      "\<forall>e\<in>set evs0. \<not> is_apply e \<and> names_branch head e" by blast
  have tg: "x = Inr tg \<Longrightarrow> tg = (if tag = [] then ecr_tag E (Suc (length (log s))) else tag)" for tg
    using c0 by (auto simp: prim_defs split: option.splits if_splits prod.splits)
  have "?P r s'"
  proof (cases x)
    case (Inl err)
    with run c0 have "s' = s2" "\<exists>e. r = Ret (failed_output, Some e)"
      by (auto simp: Prepare_def)
    with l0 show ?thesis by (intro early [of evs0]) simp_all
  next
    case (Inr tg)
    note x = this
    show ?thesis
    proof (cases "DeployPhase.Name (FindPhase pj phase) = []")
      case True
      with run c0 x have "s' = s2" "\<exists>e. r = Ret (failed_output, Some e)"
        by (auto simp: Prepare_def Let_def)
      with l0 show ?thesis by (intro early [of evs0]) simp_all
    next
      case False
      note ph = this
      let ?git0 = "(git k)\<lparr>repository := None,
                    repo := ''https://github.com/'' @ org (github k) @ ''/'' @
                            gitHubRepository pj @ ''.git''\<rparr>"
      obtain git1 err s3 where c3: "Clone E ?git0 s2 = ((git1, err), s3)"
        by (cases "Clone E ?git0 s2") auto
      obtain url store where l3: "log s3 = log s2 @ [GitClone url store]"
        using Clone_log [OF c3] by blast
      show ?thesis
      proof (cases "case err of None \<Rightarrow> None
                 | Some e \<Rightarrow> if \<not> errors_Is e ErrRepositoryAlreadyExists then Some e else None")
        case (Some e)
        with run c0 x ph c3 have "s' = s3" "\<exists>e. r = Ret (failed_output, Some e)"
          by (auto simp: Prepare_def Let_def)
        with l0 l3 show ?thesis by (intro early [of "evs0 @ [GitClone url store]"]) simp_all
      next
        case None
        let ?h = "branchName (ID pj) (DeployPhase.Name (FindPhase pj phase)) tg"
        have h: "?h = head" using tg [OF x] by (simp add: head)
        obtain r4 s4 where c4:
          "Prepare_apply E git1 phase assigner tg (FindPhase pj phase) head s3 = (r4, s4)"
          by (cases "Prepare_apply E git1 phase assigner tg (FindPhase pj phase) head s3")
        obtain e5 s5 where c5: "Clean E git1 s4 = (e5, s5)" by (cases "Clean E git1 s4")
        obtain evs5 where l5: "log s5 = log s4 @ evs5"
            "\<forall>e\<in>set evs5. \<not> is_apply e \<and> names_branch head e"
          using Clean_log [OF c5] by blast
        from run c0 x ph c3 None c4 c5 have out: "r = r4" "s' = s5"
          by (simp_all add: Prepare_def Let_def h)
        from Prepare_apply_calls [OF c4] obtain evs4 where l4: "log s4 = log s3 @ evs4"
          and n4: "\<forall>e\<in>set evs4. names_branch head e"
          and p4: "apply_calls evs4 = [] \<or>
         (\<exists>opts res. apply_calls evs4 = [(opts, res)] \<and>
            (\<forall>prs. res = Inr prs \<longrightarrow>
               r4 = (if length prs = 0 then Ret (failed_output\<lparr>status := DeployStatusAlready\<rparr>, None)
                    else if length prs > 1 then
                      Ret (failed_output,
                        Some (New ''gocat does not yet support multiple pull requests created by kanvas''))
                    else (case Atoi (Number (prs ! 0)) of
                            None \<Rightarrow> Ret (failed_output,
                                 Some (Wrap ''failed to convert pull request number to int''
                                         (Lib ''strconv.Atoi'')))
                          | Some prNum \<Rightarrow>
                              Ret (\<lparr>PullRequestID = NodeID (prs ! 0),
                                    PullRequestNumber = prNum,
                                    PullRequestHTMLURL = HTMLURL (prs ! 0),
                                    GitOpsPrepareOutput.Branch = head,
                                    status = DeployStatusSuccess\<rparr>, None)))))"
          by blast
        from out l0 l3 l4 l5 have em: "emitted s s' = evs0 @ [GitClone url store] @ evs4 @ evs5"
          by simp
        with l0 l5 have e: "apply_calls (emitted s s') = apply_calls evs4"
          by (simp add: apply_calls_append apply_calls_none)
        have n: "\<forall>e\<in>set (emitted s s'). names_branch head e"
          unfolding em using l0(2) n4 l5(2) by (simp add: ball_Un)
        have br: "\<forall>out err. r = Ret (out, err) \<and> status out = DeployStatusSuccess \<longrightarrow>
           GitOpsPrepareOutput.Branch out = head"
          using Prepare_apply_branch c4 out(1) by blast
        show ?thesis unfolding e out(1) using n br p4 unfolding out(1) by blast
      qed
    qed
  qed
  then show "\<forall>e\<in>set (emitted s s'). names_branch head e"
    and "\<forall>out err. r = Ret (out, err) \<and> status out = DeployStatusSuccess \<longrightarrow>
           GitOpsPrepareOutput.Branch out = head"
    and "apply_calls (emitted s s') = [] \<or>
         (\<exists>opts res. apply_calls (emitted s s') = [(opts, res)] \<and>
            (\<forall>prs. res = Inr prs \<longrightarrow>
               r = (if length prs = 0 then Ret (failed_output\<lparr>status := DeployStatusAlready\<rparr>, None)
                    else if length prs > 1 then
                      Ret (failed_output,
                        Some (New ''gocat does not yet support multiple pull requests created by kanvas''))
                    else (case Atoi (Number (prs ! 0)) of
                            None \<Rightarrow> Ret (failed_output,
                                 Some (Wrap ''failed to convert pull request number to int''
                                         (Lib ''strconv.Atoi'')))
                          | Some prNum \<Rightarrow>
                              Ret (\<lparr>PullRequestID = NodeID (prs ! 0),
                                    PullRequestNumber = prNum,
                                    PullRequestHTMLURL = HTMLURL (prs ! 0),
                                    GitOpsPrepareOutput.Branch = head,
                                    status = DeployStatusSuccess\<rparr>, None)))))"
    by blast+
qed

section \<open>The references after a branch is created\<close>

lemma checkoutMainBranch_state:
  assumes run: "checkoutMainBranch E g s = (Ret (Inr w'), s')"
    and op: "repository g = Some w" and alloc: "w < next_repo s"
  shows "w' = w \<and> HEAD (repos s' w) = mainRef g \<and> refs (repos s' w) (mainRef g) \<noteq> None \<and>
         (\<forall>n. n \<noteq> mainRef g \<longrightarrow> refs (repos s' w) n = refs (repos s w) n) \<and>
         (fault E (length (log s) + 2) = None \<longrightarrow>
            refs (repos s' w) (mainRef g) = Some (pull_result E (length (log s) + 2))) \<and>
         (fault E (length (log s) + 2) \<noteq> None \<longrightarrow>
            refs (repos s' w) (mainRef g) = refs (repos s w) (mainRef g)) \<and>
         next_repo s \<le> next_repo s'"
  using assms
  unfolding checkoutMainBranch_def Clone_def mainRef_def
  by (auto simp: prim_defs split: option.splits if_splits prod.splits clone_outcome.splits)


lemma createAndCheckoutNewBranch_state:
  assumes run: "createAndCheckoutNewBranch E g b s = (Ret (Inr w'), s')"
    and op: "repository g = Some w" and alloc: "w < next_repo s"
  shows "w' = w" and "HEAD (repos s' w) = b" and "b \<noteq> mainRef g"
    and "refs (repos s' w) b = refs (repos s' w) (mainRef g)"
    and "refs (repos s' w) b \<noteq> None"
    and "fault E (length (log s) + 3) = None \<longrightarrow>
            refs (repos s' w) (mainRef g) = Some (pull_result E (length (log s) + 3))"
    and "fault E (length (log s) + 3) \<noteq> None \<longrightarrow>
            refs (repos s' w) (mainRef g) = refs (repos s w) (mainRef g)"
    and "next_repo s \<le> next_repo s'"
    and "\<exists>mid. emitted s s' = StorerRemoveReference w b # mid @ [WorktreeCheckout w True b] \<and>
                (\<forall>e\<in>set mid. is_checkout_main e)"
    and "refs (repos s w) b \<noteq> None \<longrightarrow> fault E (length (log s)) = None"
proof -
  obtain d sa where c1: "Storer_RemoveReference E w b s = (d, sa)"
    by (cases "Storer_RemoveReference E w b s")
  have la: "log sa = log s @ [StorerRemoveReference w b]" using c1 by (rule git_log)
  have sa: "next_repo sa = next_repo s"
      "\<forall>n. n \<noteq> b \<longrightarrow> refs (repos sa w) n = refs (repos s w) n"
    using c1 by (auto simp: prim_defs split: option.splits)
  obtain m sb where c2: "checkoutMainBranch E g sa = (m, sb)"
    by (cases "checkoutMainBranch E g sa")
  from run op c1 c2 obtain wm where m: "m = Ret (Inr wm)"
    by (auto simp: createAndCheckoutNewBranch_def DeleteBranch_def
        split: outcome.splits sum.splits option.splits)
  from alloc sa have "w < next_repo sa" by simp
  from checkoutMainBranch_state [OF c2 [unfolded m] op this]
  have sb: "wm = w" "HEAD (repos sb w) = mainRef g" "refs (repos sb w) (mainRef g) \<noteq> None"
     "\<forall>n. n \<noteq> mainRef g \<longrightarrow> refs (repos sb w) n = refs (repos sa w) n"
     "fault E (length (log sa) + 2) = None \<longrightarrow>
            refs (repos sb w) (mainRef g) = Some (pull_result E (length (log sa) + 2))"
     "fault E (length (log sa) + 2) \<noteq> None \<longrightarrow>
            refs (repos sb w) (mainRef g) = refs (repos sa w) (mainRef g)"
     "next_repo sa \<le> next_repo sb"
    by blast+
  obtain mid where lb: "log sb = log sa @ mid" "\<forall>e\<in>set mid. is_checkout_main e"
    using checkoutMainBranch_events [OF c2] by blast
  from run op c1 c2 m sb(1)
  have c3: "Worktree_Checkout E w True b sb = (None, s')" and w': "w' = w"
    by (auto simp: createAndCheckoutNewBranch_def DeleteBranch_def
        split: outcome.splits sum.splits option.splits prod.splits)
  have lc: "log s' = log sb @ [WorktreeCheckout w True b]" using c3 by (rule git_log)
  from c3 have free: "refs (repos sb w) b = None"
    by (auto simp: prim_defs split: option.splits if_splits)
  with sb(3) have ne: "b \<noteq> mainRef g" by auto
  from c3 sb(2,3) free
  have s': "HEAD (repos s' w) = b" "refs (repos s' w) b = refs (repos sb w) (mainRef g)"
    "\<forall>n. n \<noteq> b \<longrightarrow> refs (repos s' w) n = refs (repos sb w) n" "next_repo s' = next_repo sb"
    by (auto simp: prim_defs split: option.splits if_splits)
  have len: "length (log sa) + 2 = length (log s) + 3" using la by simp
  from la lb lc have em: "emitted s s' = StorerRemoveReference w b # mid @ [WorktreeCheckout w True b]"
    by simp
  show "w' = w" by (rule w')
  show "HEAD (repos s' w) = b" by (rule s'(1))
  show "b \<noteq> mainRef g" by (rule ne)
  have main: "refs (repos s' w) (mainRef g) = refs (repos sb w) (mainRef g)"
    using s'(3) ne by auto
  show "refs (repos s' w) b = refs (repos s' w) (mainRef g)"
    using s'(2) main by simp
  show "refs (repos s' w) b \<noteq> None" using s'(2) sb(3) by simp
  show "fault E (length (log s) + 3) = None \<longrightarrow>
            refs (repos s' w) (mainRef g) = Some (pull_result E (length (log s) + 3))"
    using sb(5) main unfolding len by simp
  have "refs (repos sa w) (mainRef g) = refs (repos s w) (mainRef g)"
    using sa(2) ne by auto
  then show "fault E (length (log s) + 3) \<noteq> None \<longrightarrow>
            refs (repos s' w) (mainRef g) = refs (repos s w) (mainRef g)"
    using sb(6) main unfolding len by simp
  show "next_repo s \<le> next_repo s'" using sa(1) sb(7) s'(4) by simp
  show "\<exists>mid. emitted s s' = StorerRemoveReference w b # mid @ [WorktreeCheckout w True b] \<and>
                (\<forall>e\<in>set mid. is_checkout_main e)"
    using em lb(2) by blast
  have "refs (repos sa w) b = None" using sb(4) ne free by auto
  moreover have "fault E (length (log s)) \<noteq> None \<longrightarrow> refs (repos sa w) b = refs (repos s w) b"
    using c1 by (auto simp: prim_defs split: option.splits)
  ultimately show "refs (repos s w) b \<noteq> None \<longrightarrow> fault E (length (log s)) = None"
    by auto
qed

lemma commits_state:
  "HEAD (repos (commits E w author msgs s) w) = HEAD (repos s w) \<and>
   (\<forall>n. n \<noteq> HEAD (repos s w) \<longrightarrow> refs (repos (commits E w author msgs s) w) n = refs (repos s w) n) \<and>
   (refs (repos s w) (HEAD (repos s w)) \<noteq> None \<longrightarrow>
      refs (repos (commits E w author msgs s) w) (HEAD (repos s w)) \<noteq> None) \<and>
   next_repo (commits E w author msgs s) = next_repo s"
proof (induction msgs arbitrary: s)
  case Nil
  then show ?case by simp
next
  case (Cons msg msgs)
  have "HEAD (repos (snd (Worktree_Commit E w msg author s)) w) = HEAD (repos s w) \<and>
   (\<forall>n. n \<noteq> HEAD (repos s w) \<longrightarrow>
      refs (repos (snd (Worktree_Commit E w msg author s)) w) n = refs (repos s w) n) \<and>
   (refs (repos s w) (HEAD (repos s w)) \<noteq> None \<longrightarrow>
      refs (repos (snd (Worktree_Commit E w msg author s)) w) (HEAD (repos s w)) \<noteq> None) \<and>
   next_repo (snd (Worktree_Commit E w msg author s)) = next_repo s"
    by (auto simp: prim_defs split: option.splits)
  with Cons [of "snd (Worktree_Commit E w msg author s)"] show ?case by simp
qed


text \<open>
  A second call with the same name, after a first one and any commits: the branch is
  checked out with its reference at the main branch's commit, which is the commit the
  pull fetched, and the main branch's commit of the first call when the pull failed.
\<close>

lemma createAndCheckoutNewBranch_again:
  assumes op: "repository g = Some w" and alloc: "w < next_repo s0"
    and first: "createAndCheckoutNewBranch E g b s0 = (Ret (Inr w1), s1)"
    and between: "s2 = commits E w (username g) msgs s1"
    and second: "createAndCheckoutNewBranch E g b s2 = (Ret (Inr w2), s3)"
  shows "HEAD (repos s3 w) = b \<and>
         refs (repos s3 w) b \<noteq> None \<and>
         refs (repos s3 w) b = refs (repos s3 w) (mainRef g) \<and>
         (fault E (length (log s2) + 3) = None \<longrightarrow>
            refs (repos s3 w) b = Some (pull_result E (length (log s2) + 3))) \<and>
         (fault E (length (log s2) + 3) \<noteq> None \<longrightarrow>
            refs (repos s3 w) b = refs (repos s1 w) (mainRef g)) \<and>
         refs (repos s2 w) b \<noteq> None \<and> fault E (length (log s2)) = None \<and>
         (\<exists>mid. emitted s2 s3 = StorerRemoveReference w b # mid @ [WorktreeCheckout w True b] \<and>
                (\<forall>e\<in>set mid. is_checkout_main e))"
proof -
  note f = createAndCheckoutNewBranch_state [OF first op alloc]
  note c = commits_state [of E w "username g" msgs s1]
  from f(8) c between alloc have alloc2: "w < next_repo s2" by simp
  have "mainRef g \<noteq> HEAD (repos s1 w)" using f(2,3) by simp
  with c between have keep: "refs (repos s2 w) (mainRef g) = refs (repos s1 w) (mainRef g)"
    by simp
  note t = createAndCheckoutNewBranch_state [OF second op alloc2]
  have "fault E (length (log s2) + 3) = None \<longrightarrow>
            refs (repos s3 w) b = Some (pull_result E (length (log s2) + 3))"
    using t(4,6) by simp
  moreover have "fault E (length (log s2) + 3) \<noteq> None \<longrightarrow>
            refs (repos s3 w) b = refs (repos s1 w) (mainRef g)"
    using t(4,7) keep by simp
  moreover have pre: "refs (repos s2 w) b \<noteq> None"
    using c f(2,5) between by auto
  moreover have "fault E (length (log s2)) = None" using t(10) pre by simp
  ultimately show ?thesis using t(2,4,5,9) by blast
qed

section \<open>The loop over the image list\<close>

lemma images_loop_length: "length (fst (images_loop tag tt imgs)) = length imgs"
  by (induction imgs) (auto split: prod.splits)

lemma images_loop_nth:
  "i < length imgs \<Longrightarrow>
   fst (images_loop tag tt imgs) ! i =
     (if Image.Name (imgs ! i) = tt then (imgs ! i)\<lparr>NewTag := tag\<rparr> else imgs ! i)"
proof (induction imgs arbitrary: i)
  case Nil
  then show ?case by simp
next
  case (Cons a imgs)
  then show ?case by (cases i) (auto split: prod.splits)
qed

lemma images_loop_updated:
  "snd (images_loop tag tt imgs) = (\<exists>img \<in> set imgs. Image.Name img = tt)"
  by (induction imgs) (auto split: prod.splits)

lemma images_loop_absent:
  "\<forall>img \<in> set imgs. Image.Name img \<noteq> tt \<Longrightarrow> images_loop tag tt imgs = (imgs, False)"
  by (induction imgs) (auto split: prod.splits)

lemma images_loop_again:
  "images_loop tag tt (fst (images_loop tag tt imgs)) = images_loop tag tt imgs"
  by (induction imgs) (auto split: prod.splits)

lemma images_loop_append:
  "images_loop tag tt (xs @ ys) =
     (fst (images_loop tag tt xs) @ fst (images_loop tag tt ys),
      snd (images_loop tag tt xs) \<or> snd (images_loop tag tt ys))"
  by (induction xs) (auto split: prod.splits)







section \<open>The local repository root\<close>

lemma Clean_nonempty: "filepath_Clean p \<noteq> []"
  by (simp add: filepath_Clean_def Let_def)

lemma getLocalRepoRoot_nonempty: "gitRoot g \<noteq> [] \<Longrightarrow> getLocalRepoRoot g \<noteq> []"
  by (simp add: getLocalRepoRoot_def filepath_Join_def Let_def Clean_nonempty)

section \<open>Claims\<close>

text \<open>
  C10. \<open>toPhase\<close> maps \<open>pro\<close>, \<open>prd\<close> and \<open>production\<close> to \<open>production\<close>, \<open>stg\<close> and
  \<open>staging\<close> to \<open>staging\<close>, \<open>sandbox\<close> to \<open>sandbox\<close>, and every other string to
  \<open>staging\<close>; it returns one of these three values for every input.
\<close>

theorem toPhase_values:
  "toPhase ''pro'' = ''production'' \<and> toPhase ''prd'' = ''production'' \<and>
   toPhase ''production'' = ''production'' \<and>
   toPhase ''stg'' = ''staging'' \<and> toPhase ''staging'' = ''staging'' \<and>
   toPhase ''sandbox'' = ''sandbox'' \<and>
   (str \<notin> {''pro'', ''prd'', ''production'', ''stg'', ''staging'', ''sandbox''}
      \<longrightarrow> toPhase str = ''staging'') \<and>
   toPhase str \<in> {''production'', ''staging'', ''sandbox''}"
  by (simp add: toPhase_def)

theorem toPhase_values_witness:
  "''dev'' \<notin> {''pro'', ''prd'', ''production'', ''stg'', ''staging'', ''sandbox''} \<and>
   toPhase ''dev'' = ''staging'' \<and> toPhase ''dev'' \<in> {''production'', ''staging'', ''sandbox''}"
  using toPhase_values [of "''dev''"] by simp

text \<open>
  C7. When the target file does not exist in the worktree's filesystem, \<open>commit\<close>
  returns nil after the one \<open>Stat\<close> call and leaves the world as it was: nothing is
  read, written or staged.
\<close>

theorem commit_skips_missing_file:
  "files (repos s w) targetFilePath = None \<Longrightarrow>
   commit E w targetFilePath ov s = (None, s\<lparr>log := log s @ [FsStat w targetFilePath]\<rparr>)"
  by (simp add: commit_def Fs_Stat_def lib_call_def Let_def split: option.splits)

theorem commit_skips_missing_file_witness:
  "files (repos example_world 0) ''overlays/staging/configmap.yaml'' = None \<and>
   fst (commit example_env 0 ''overlays/staging/configmap.yaml'' MemcachedOverWrite example_world) = None \<and>
   files (repos (snd (commit example_env 0 ''overlays/staging/configmap.yaml'' MemcachedOverWrite
                       example_world)) 0) = files (repos example_world 0) \<and>
   log (snd (commit example_env 0 ''overlays/staging/configmap.yaml'' MemcachedOverWrite
               example_world)) = [FsStat 0 ''overlays/staging/configmap.yaml'']"
proof -
  have h: "files (repos example_world 0) ''overlays/staging/configmap.yaml'' = None"
    by (simp add: example_defs)
  from commit_skips_missing_file [OF h, of example_env MemcachedOverWrite] h
  show ?thesis by (simp add: example_world_def)
qed

text \<open>
  C2. A status with a path whose staging state is not \<open>Modified\<close> makes the loop of
  \<open>verify\<close> return the error; when \<open>verify\<close> is given such a status by the worktree
  it returns that error; and when \<open>PushDockerImageTag\<close> is given such a status it
  returns the branch with that error, and none of the calls it has made is a commit,
  a reference update or a push.
\<close>

theorem verify_fails_closed:
  "((\<exists>x\<in>set st. Staging (snd x) \<noteq> Modified) \<longrightarrow>
      verify_loop st = Some (New ''There are some extra file updates'')) \<and>
   (verify E w s = (err, s') \<and> WorktreeStatus w (Inr st) \<in> set (emitted s s') \<and>
      (\<exists>x\<in>set st. Staging (snd x) \<noteq> Modified) \<longrightarrow>
      err = Some (New ''There are some extra file updates'')) \<and>
   (PushDockerImageTag E g ident phase tag targetTag s = (r, s1) \<and>
      WorktreeStatus w (Inr st) \<in> set (emitted s s1) \<and>
      (\<exists>x\<in>set st. Staging (snd x) \<noteq> Modified) \<longrightarrow>
      r = Ret (branchName ident (DeployPhase.Name phase) tag,
               Some (New ''There are some extra file updates'')) \<and>
      (\<forall>ev\<in>set (emitted s s1). \<not> is_publish ev))"
proof -
  have p1: "(\<exists>x\<in>set st. Staging (snd x) \<noteq> Modified) \<longrightarrow>
      verify_loop st = Some (New ''There are some extra file updates'')"
    using verify_loop_bad by blast
  have p2: "verify E w s = (err, s') \<and> WorktreeStatus w (Inr st) \<in> set (emitted s s') \<and>
      (\<exists>x\<in>set st. Staging (snd x) \<noteq> Modified) \<longrightarrow>
      err = Some (New ''There are some extra file updates'')"
  proof
    assume a: "verify E w s = (err, s') \<and> WorktreeStatus w (Inr st) \<in> set (emitted s s') \<and>
      (\<exists>x\<in>set st. Staging (snd x) \<noteq> Modified)"
    then obtain res where "log s' = log s @ [WorktreeStatus w res]"
        "\<forall>st. res = Inr st \<longrightarrow> err = verify_loop st"
      using verify_log by blast
    moreover from a have "verify_loop st = Some (New ''There are some extra file updates'')"
      by (simp add: verify_loop_bad)
    ultimately show "err = Some (New ''There are some extra file updates'')"
      using a by auto
  qed
  have p3: "PushDockerImageTag E g ident phase tag targetTag s = (r, s1) \<and>
      WorktreeStatus w (Inr st) \<in> set (emitted s s1) \<and>
      (\<exists>x\<in>set st. Staging (snd x) \<noteq> Modified) \<longrightarrow>
      r = Ret (branchName ident (DeployPhase.Name phase) tag,
               Some (New ''There are some extra file updates'')) \<and>
      (\<forall>ev\<in>set (emitted s s1). \<not> is_publish ev)"
  proof
    assume a: "PushDockerImageTag E g ident phase tag targetTag s = (r, s1) \<and>
      WorktreeStatus w (Inr st) \<in> set (emitted s s1) \<and>
      (\<exists>x\<in>set st. Staging (snd x) \<noteq> Modified)"
    then have run: "PushDockerImageTag E g ident phase tag targetTag s = (r, s1)"
      and mem: "WorktreeStatus w (Inr st) \<in> set (emitted s s1)"
      and vl: "verify_loop st = Some (New ''There are some extra file updates'')"
      by (simp_all add: verify_loop_bad)
    from run refl
    show "r = Ret (branchName ident (DeployPhase.Name phase) tag,
               Some (New ''There are some extra file updates'')) \<and>
      (\<forall>ev\<in>set (emitted s s1). \<not> is_publish ev)"
    proof (cases rule: PushDockerImageTag_trace)
      case (early pre)
      with mem show ?thesis by auto
    next
      case (rejected pre w0 res e)
      with mem have "res = Inr st" by auto
      with rejected vl show ?thesis by auto
    next
      case (accepted pre w0 res post)
      with mem have "res = Inr st" by auto
      with accepted vl show ?thesis by simp
    qed
  qed
  from p1 p2 p3 show ?thesis by blast
qed

theorem verify_fails_closed_witness:
  "(\<exists>x\<in>set example_status. Staging (snd x) \<noteq> Modified) \<and>
   verify_loop example_status = Some (New ''There are some extra file updates'') \<and>
   WorktreeStatus 0 (Inr example_status) \<in> set (emitted example_world
     (snd (PushDockerImageTag example_env example_operator ''myapp'' example_phase ''v2'' ''app''
        example_world))) \<and>
   fst (PushDockerImageTag example_env example_operator ''myapp'' example_phase ''v2'' ''app''
        example_world) =
     Ret (''bot/docker-image-tag-myapp-staging-v2'',
          Some (New ''There are some extra file updates'')) \<and>
   list_all (\<lambda>ev. \<not> is_publish ev) (emitted example_world
     (snd (PushDockerImageTag example_env example_operator ''myapp'' example_phase ''v2'' ''app''
        example_world)))"
proof -
  let ?run = "PushDockerImageTag example_env example_operator ''myapp'' example_phase ''v2''
                ''app'' example_world"
  have h1: "\<exists>x\<in>set example_status. Staging (snd x) \<noteq> Modified"
    by (simp add: example_status_def)
  have h2: "WorktreeStatus 0 (Inr example_status) \<in> set (emitted example_world (snd ?run))"
    by (simp add: code_defs prim_defs example_defs)
  from verify_fails_closed [of example_status example_env 0 example_world None example_world
      example_operator "''myapp''" example_phase "''v2''" "''app''" "fst ?run" "snd ?run"] h1 h2
  show ?thesis
    by (simp add: list_all_iff branchName_def example_phase_def)
qed

text \<open>
  C3. On a manifest that parses: an image entry that already has the target name and
  the tag keeps its place and is unchanged, and no entry is added; when no entry has the
  target name the list becomes the old list followed by the one new entry for the
  target with the tag; and an update of the updated manifest changes nothing.
\<close>

theorem image_tag_overwrite:
  assumes "unmarshal b = Inr obj"
  shows "(\<forall>i. i < length (Images obj) \<and> Image.Name (Images obj ! i) = targetTag \<and>
              NewTag (Images obj ! i) = tag \<longrightarrow>
            (\<exists>obj'. KustomizationOverWrite_Update unmarshal tag targetTag b = Inr obj' \<and>
                    length (Images obj') = length (Images obj) \<and>
                    Images obj' ! i = Images obj ! i)) \<and>
         ((\<forall>img \<in> set (Images obj). Image.Name img \<noteq> targetTag) \<longrightarrow>
            KustomizationOverWrite_Update unmarshal tag targetTag b =
              Inr (obj\<lparr>Images := Images obj @
                     [\<lparr>Image.Name = targetTag, NewName = [], NewTag = tag, Digest = []\<rparr>]\<rparr>)) \<and>
         (\<forall>obj'. KustomizationOverWrite_Update unmarshal tag targetTag b = Inr obj' \<longrightarrow>
            KustomizationOverWrite_Update (\<lambda>_. Inr obj') tag targetTag b = Inr obj')"
proof (intro conjI allI impI)
  fix i
  assume a: "i < length (Images obj) \<and> Image.Name (Images obj ! i) = targetTag \<and>
              NewTag (Images obj ! i) = tag"
  then have "Images obj ! i \<in> set (Images obj)" by simp
  with a have u: "snd (images_loop tag targetTag (Images obj))"
    unfolding images_loop_updated by blast
  obtain imgs where l: "images_loop tag targetTag (Images obj) = (imgs, True)"
    using u by (cases "images_loop tag targetTag (Images obj)") auto
  have "imgs = fst (images_loop tag targetTag (Images obj))" using l by simp
  with a have "length imgs = length (Images obj)" "imgs ! i = Images obj ! i"
    by (simp_all add: images_loop_length images_loop_nth)
  with assms l
  show "\<exists>obj'. KustomizationOverWrite_Update unmarshal tag targetTag b = Inr obj' \<and>
                    length (Images obj') = length (Images obj) \<and>
                    Images obj' ! i = Images obj ! i"
    by (simp add: KustomizationOverWrite_Update_def)
next
  assume "\<forall>img \<in> set (Images obj). Image.Name img \<noteq> targetTag"
  then have "images_loop tag targetTag (Images obj) = (Images obj, False)"
    by (rule images_loop_absent)
  with assms
  show "KustomizationOverWrite_Update unmarshal tag targetTag b =
              Inr (obj\<lparr>Images := Images obj @
                     [\<lparr>Image.Name = targetTag, NewName = [], NewTag = tag, Digest = []\<rparr>]\<rparr>)"
    by (simp add: KustomizationOverWrite_Update_def)
next
  fix obj'
  assume r: "KustomizationOverWrite_Update unmarshal tag targetTag b = Inr obj'"
  obtain imgs u where l: "images_loop tag targetTag (Images obj) = (imgs, u)"
    by (cases "images_loop tag targetTag (Images obj)")
  have again: "images_loop tag targetTag imgs = (imgs, u)"
    using images_loop_again [of tag targetTag "Images obj"] l by simp
  show "KustomizationOverWrite_Update (\<lambda>_. Inr obj') tag targetTag b = Inr obj'"
  proof (cases u)
    case True
    with r l assms have "obj' = obj\<lparr>Images := imgs\<rparr>"
      by (simp add: KustomizationOverWrite_Update_def)
    with again True show ?thesis
      by (simp add: KustomizationOverWrite_Update_def)
  next
    case False
    with r l assms have o: "obj' = obj\<lparr>Images := imgs @
        [\<lparr>Image.Name = targetTag, NewName = [], NewTag = tag, Digest = []\<rparr>]\<rparr>"
      by (simp add: KustomizationOverWrite_Update_def)
    have "images_loop tag targetTag (imgs @
        [\<lparr>Image.Name = targetTag, NewName = [], NewTag = tag, Digest = []\<rparr>]) =
        (imgs @ [\<lparr>Image.Name = targetTag, NewName = [], NewTag = tag, Digest = []\<rparr>], True)"
      using again by (simp add: images_loop_append)
    with o show ?thesis
      by (simp add: KustomizationOverWrite_Update_def)
  qed
qed


theorem image_tag_overwrite_witness:
  "yaml_Unmarshal_Kustomization example_document =
     Inr \<lparr>Images = [\<lparr>Image.Name = ''app'', NewName = [], NewTag = ''v2'', Digest = []\<rparr>],
          OtherFields = [(''resources'', YSeq [YStr ''deployment.yaml''])]\<rparr> \<and>
   KustomizationOverWrite_Update yaml_Unmarshal_Kustomization ''v2'' ''app'' example_document =
     Inr \<lparr>Images = [\<lparr>Image.Name = ''app'', NewName = [], NewTag = ''v2'', Digest = []\<rparr>],
          OtherFields = [(''resources'', YSeq [YStr ''deployment.yaml''])]\<rparr> \<and>
   KustomizationOverWrite_Update yaml_Unmarshal_Kustomization ''v2'' ''web'' example_document =
     Inr \<lparr>Images = [\<lparr>Image.Name = ''app'', NewName = [], NewTag = ''v2'', Digest = []\<rparr>,
                    \<lparr>Image.Name = ''web'', NewName = [], NewTag = ''v2'', Digest = []\<rparr>],
          OtherFields = [(''resources'', YSeq [YStr ''deployment.yaml''])]\<rparr>"
proof -
  have h: "yaml_Unmarshal_Kustomization example_document =
     Inr \<lparr>Images = [\<lparr>Image.Name = ''app'', NewName = [], NewTag = ''v2'', Digest = []\<rparr>],
          OtherFields = [(''resources'', YSeq [YStr ''deployment.yaml''])]\<rparr>"
    by (simp add: yaml_Unmarshal_Kustomization_def example_document_def decode_Image_def
        field_string_def Kustomization_keys_def)
  have same: "KustomizationOverWrite_Update yaml_Unmarshal_Kustomization ''v2'' ''app''
      example_document =
     Inr \<lparr>Images = [\<lparr>Image.Name = ''app'', NewName = [], NewTag = ''v2'', Digest = []\<rparr>],
          OtherFields = [(''resources'', YSeq [YStr ''deployment.yaml''])]\<rparr>"
    by (simp add: KustomizationOverWrite_Update_def h)
  from image_tag_overwrite [where unmarshal = yaml_Unmarshal_Kustomization
        and b = example_document and targetTag = "''app''" and tag = "''v2''", OF h]
    image_tag_overwrite [where unmarshal = yaml_Unmarshal_Kustomization
        and b = example_document and targetTag = "''web''" and tag = "''v2''", OF h] h same
  show ?thesis by simp
qed

text \<open>
  C6. For an operator with a local root: when no \<open>.git\<close> exists under the local
  repository root, \<open>Clean\<close> returns an error after the one \<open>Stat\<close> call and the
  filesystem is as it was; a deletion among the calls of \<open>Clean\<close> means the marker was
  there; and without a deletion call the paths of the filesystem are unchanged.
\<close>

theorem Clean_requires_marker:
  "(gitRoot g \<noteq> [] \<and> filepath_Join [getLocalRepoRoot g, ''.git''] \<notin> set (os_paths s) \<longrightarrow>
      (\<exists>err. fst (Clean E g s) = Some err) \<and>
      snd (Clean E g s) = s\<lparr>log := log s @ [OsStat (filepath_Join [getLocalRepoRoot g, ''.git''])]\<rparr>) \<and>
   ((\<exists>ev \<in> set (emitted s (snd (Clean E g s))). is_deletion ev) \<longrightarrow>
      filepath_Join [getLocalRepoRoot g, ''.git''] \<in> set (os_paths s)) \<and>
   ((\<forall>ev \<in> set (emitted s (snd (Clean E g s))). \<not> is_deletion ev) \<longrightarrow>
      os_paths (snd (Clean E g s)) = os_paths s)"
  by (auto simp: Clean_def os_Stat_def os_RemoveAll_def lib_call_def Let_def emitted_def
        getLocalRepoRoot_nonempty split: option.splits if_splits)


theorem Clean_requires_marker_witness:
  "gitRoot disk_operator \<noteq> [] \<and>
   getLocalRepoRoot disk_operator = ''/data/github.com/zaiminc/config'' \<and>
   ''/data/github.com/zaiminc/config/.git'' \<notin> set (os_paths example_world) \<and>
   fst (Clean example_env disk_operator example_world) =
     Some (Wrap ''unable to stat /data/github.com/zaiminc/config/.git'' ErrNotExist) \<and>
   os_paths (snd (Clean example_env disk_operator example_world)) = os_paths example_world \<and>
   emitted example_world (snd (Clean example_env disk_operator example_world)) =
     [OsStat ''/data/github.com/zaiminc/config/.git''] \<and>
   ''/data/github.com/zaiminc/config/.git'' \<in> set (os_paths disk_world) \<and>
   emitted disk_world (snd (Clean example_env disk_operator disk_world)) =
     [OsStat ''/data/github.com/zaiminc/config/.git'',
      OsRemoveAll ''/data/github.com/zaiminc/config''] \<and>
   os_paths (snd (Clean example_env disk_operator disk_world)) = [''/data/other'']"
proof -
  have root: "getLocalRepoRoot disk_operator = ''/data/github.com/zaiminc/config''"
    by (simp add: getLocalRepoRoot_def example_defs path_defs HasPrefix_def)
  have git: "filepath_Join [''/data/github.com/zaiminc/config'', ''.git''] =
      ''/data/github.com/zaiminc/config/.git''"
    by (simp add: path_defs HasPrefix_def)
  have run1: "Clean example_env disk_operator example_world =
      (Some (Wrap ''unable to stat /data/github.com/zaiminc/config/.git'' ErrNotExist),
       example_world\<lparr>log := [OsStat ''/data/github.com/zaiminc/config/.git'']\<rparr>)"
    by (simp add: Clean_def Let_def root git os_Stat_def lib_call_def example_env_def
        example_world_def)
  have run2: "emitted disk_world (snd (Clean example_env disk_operator disk_world)) =
     [OsStat ''/data/github.com/zaiminc/config/.git'',
      OsRemoveAll ''/data/github.com/zaiminc/config'']"
    "os_paths (snd (Clean example_env disk_operator disk_world)) = [''/data/other'']"
    by (simp_all add: Clean_def Let_def root git os_Stat_def os_RemoveAll_def lib_call_def under_def
        HasPrefix_def emitted_def example_env_def example_world_def disk_world_def)
  from Clean_requires_marker [of disk_operator example_world example_env]
    Clean_requires_marker [of disk_operator disk_world example_env] root git run1 run2
  show ?thesis
    by (simp add: disk_operator_def example_operator_def disk_world_def example_world_def emitted_def)
qed

text \<open>
  C4. On a tick of \<open>checkAndDeploy\<close>: when the tag of the current-revision query equals
  the tag of the registry query, or either query returns an error, none of the calls
  of the tick is a deploy or a notification. The queries are named by what they
  return in the worlds the tick makes them in.
\<close>

theorem checkAndDeploy_skips:
  assumes "ecr_CreateECRInstance E s = (e1, s1)"
    and "Destination_GetCurrentRevision E (DeployPhase.Name phase) s1 = ((currentTag, e2), s2)"
    and "ecr_FindImageTagByRegexp E (ECRRegistryId dp) (ECRRepository dp) (ImageTagRegexp dp)
           (TargetRegexp dp) \<lparr>ImageTagVars.Branch = DefaultBranch dp, Phase = []\<rparr> s2 = ((tag, e3), s3)"
    and "currentTag = tag \<or> e2 \<noteq> None \<or> e3 \<noteq> None"
  shows "\<forall>ev \<in> set (emitted s (checkAndDeploy E dp phase s)). \<not> is_deploy ev \<and> \<not> is_notification ev"
  using assms
  by (auto simp: checkAndDeploy_def ecr_CreateECRInstance_def Destination_GetCurrentRevision_def
      ecr_FindImageTagByRegexp_def lib_call_def Let_def emitted_def split: option.splits if_splits)


theorem checkAndDeploy_skips_witness:
  "current_revision deployed_env 1 = ecr_tag deployed_env 2 \<and>
   emitted example_world (checkAndDeploy deployed_env example_project example_phase example_world) =
     [CreateECRInstance, GetCurrentRevision ''staging'',
      FindImageTagByRegexp ''123'' ''myapp'' ''^v'' []
        \<lparr>ImageTagVars.Branch = ''main'', Phase = []\<rparr>] \<and>
   list_all (\<lambda>ev. \<not> is_deploy ev \<and> \<not> is_notification ev)
     (emitted example_world (checkAndDeploy deployed_env example_project example_phase example_world))"
proof -
  let ?s1 = "example_world\<lparr>log := [CreateECRInstance]\<rparr>"
  let ?s2 = "example_world\<lparr>log := [CreateECRInstance, GetCurrentRevision ''staging'']\<rparr>"
  let ?s3 = "example_world\<lparr>log := [CreateECRInstance, GetCurrentRevision ''staging'',
      FindImageTagByRegexp ''123'' ''myapp'' ''^v'' []
        \<lparr>ImageTagVars.Branch = ''main'', Phase = []\<rparr>]\<rparr>"
  have a1: "ecr_CreateECRInstance deployed_env example_world = (None, ?s1)"
    by (simp add: prim_defs example_defs)
  have a2: "Destination_GetCurrentRevision deployed_env (DeployPhase.Name example_phase) ?s1 =
      ((''v2'', None), ?s2)"
    by (simp add: prim_defs example_defs)
  have a3: "ecr_FindImageTagByRegexp deployed_env (ECRRegistryId example_project)
      (ECRRepository example_project) (ImageTagRegexp example_project)
      (TargetRegexp example_project)
      \<lparr>ImageTagVars.Branch = DefaultBranch example_project, Phase = []\<rparr> ?s2 = ((''v2'', None), ?s3)"
    by (simp add: prim_defs example_defs)
  have a4: "''v2'' = ''v2'' \<or> (None :: error option) \<noteq> None \<or> (None :: error option) \<noteq> None"
    by simp
  have e: "emitted example_world
      (checkAndDeploy deployed_env example_project example_phase example_world) =
     [CreateECRInstance, GetCurrentRevision ''staging'',
      FindImageTagByRegexp ''123'' ''myapp'' ''^v'' []
        \<lparr>ImageTagVars.Branch = ''main'', Phase = []\<rparr>]"
    by (simp add: checkAndDeploy_def emitted_def prim_defs example_defs)
  from checkAndDeploy_skips [OF a1 a2 a3 a4] e
  show ?thesis by (simp add: list_all_iff example_defs)
qed

text \<open>
  C5. The claim fails where the pull of the second call fails. A first call creates
  \<open>bot/x\<close> at the commit \<open>2222\<close> its pull fetched, and a commit moves the branch to
  \<open>3333\<close>. Origin's main branch moves to \<open>9999\<close> and the pull of the second call
  fails. \<open>checkoutMainBranch\<close> then clones, and the clone has the main branch at
  \<open>9999\<close>; but the method has a value receiver, so the cloned repository goes to its own
  copy of the operator, and the worktree it returns is the old one. The second call
  returns without an error; it removes the old reference first and creates the branch
  last, and the one reference \<open>bot/x\<close> is at \<open>2222\<close>, the base of the first call, not
  at the commit of origin's main branch.
\<close>

theorem createAndCheckoutNewBranch_stale_base:
  "fst (createAndCheckoutNewBranch failed_pull_env example_operator ''bot/x'' example_world) =
     Ret (Inr 0) \<and>
   refs (repos (snd (createAndCheckoutNewBranch failed_pull_env example_operator ''bot/x''
     example_world)) 0) ''bot/x'' = Some ''2222'' \<and>
   refs (repos (commits failed_pull_env 0 ''bot'' [''work in progress'']
     (snd (createAndCheckoutNewBranch failed_pull_env example_operator ''bot/x'' example_world))) 0)
     ''bot/x'' = Some ''3333'' \<and>
   fst (createAndCheckoutNewBranch failed_pull_env example_operator ''bot/x''
     (commits failed_pull_env 0 ''bot'' [''work in progress'']
        (snd (createAndCheckoutNewBranch failed_pull_env example_operator ''bot/x'' example_world)))) =
     Ret (Inr 0) \<and>
   emitted
     (commits failed_pull_env 0 ''bot'' [''work in progress'']
        (snd (createAndCheckoutNewBranch failed_pull_env example_operator ''bot/x'' example_world)))
     (snd (createAndCheckoutNewBranch failed_pull_env example_operator ''bot/x''
       (commits failed_pull_env 0 ''bot'' [''work in progress'']
          (snd (createAndCheckoutNewBranch failed_pull_env example_operator ''bot/x'' example_world))))) =
     [StorerRemoveReference 0 ''bot/x'', RepositoryWorktree 0,
      WorktreeCheckout 0 False ''refs/heads/main'', WorktreePull 0,
      GitClone ''https://github.com/zaiminc/config.git'' [],
      WorktreeCheckout 0 True ''bot/x''] \<and>
   refs (repos (snd (createAndCheckoutNewBranch failed_pull_env example_operator ''bot/x''
     (commits failed_pull_env 0 ''bot'' [''work in progress'']
        (snd (createAndCheckoutNewBranch failed_pull_env example_operator ''bot/x'' example_world))))) 1)
     ''refs/heads/main'' = Some ''9999'' \<and>
   refs (repos (snd (createAndCheckoutNewBranch failed_pull_env example_operator ''bot/x''
     (commits failed_pull_env 0 ''bot'' [''work in progress'']
        (snd (createAndCheckoutNewBranch failed_pull_env example_operator ''bot/x'' example_world))))) 0)
     ''bot/x'' = Some ''2222''"
  by (simp add: code_defs prim_defs example_defs)

text \<open>
  C1, as the claim states it, fails: the tool produces exactly one pull request, whose
  number \<open>#7\<close> is not a decimal integer, and \<open>Prepare\<close> returns the failed outcome
  with a conversion error instead of \<open>Success\<close>.
\<close>

theorem Prepare_single_pull_request_counterexample:
  "map snd (apply_calls (emitted example_world
     (snd (Prepare unnumbered_env example_plugin example_project ''staging'' ''main''
             example_user ''v2'' example_world)))) = [Inr [unnumbered_pull_request]] \<and>
   fst (Prepare unnumbered_env example_plugin example_project ''staging'' ''main''
          example_user ''v2'' example_world) =
     Ret (failed_output,
          Some (Wrap ''failed to convert pull request number to int'' (Lib ''strconv.Atoi''))) \<and>
   status failed_output = DeployStatusFail"
  by (simp add: code_defs prim_defs example_defs path_defs Atoi_def is_digit_def)

text \<open>
  C1, amended. For every result the kanvas tool returns inside \<open>Prepare\<close>: no pull
  request gives the outcome \<open>AlreadyDeployed\<close> and no error; exactly one pull request
  whose number reads as a decimal integer gives \<open>Success\<close> with that pull request's
  node id, its number as that integer, its URL, and the branch
  \<open>bot/docker-image-tag-<project id>-<phase name>-<tag>\<close>; exactly one whose number does
  not read as an integer gives the failed outcome with a conversion error; two or more
  give the failed outcome with the error that multiple pull requests are not supported.
  The tag is the one given, or the one the registry returned when none was given.
\<close>

theorem Prepare_outcome:
  assumes run: "Prepare E k pj phase branch assigner tag s = (r, s')"
    and tool: "(opts, Inr prs) \<in> set (apply_calls (emitted s s'))"
  shows "(prs = [] \<longrightarrow> r = Ret (failed_output\<lparr>status := DeployStatusAlready\<rparr>, None)) \<and>
         (\<forall>pr n. prs = [pr] \<and> Atoi (Number pr) = Some n \<longrightarrow>
            r = Ret (\<lparr>PullRequestID = NodeID pr,
                      PullRequestNumber = n,
                      PullRequestHTMLURL = HTMLURL pr,
                      GitOpsPrepareOutput.Branch =
                        ''bot/docker-image-tag-'' @ ID pj @ ''-'' @
                        DeployPhase.Name (FindPhase pj phase) @ ''-'' @
                        (if tag = [] then ecr_tag E (Suc (length (log s))) else tag),
                      status = DeployStatusSuccess\<rparr>, None)) \<and>
         (\<forall>pr. prs = [pr] \<and> Atoi (Number pr) = None \<longrightarrow>
            r = Ret (failed_output,
                     Some (Wrap ''failed to convert pull request number to int''
                             (Lib ''strconv.Atoi'')))) \<and>
         (2 \<le> length prs \<longrightarrow>
            r = Ret (failed_output,
                     Some (New ''gocat does not yet support multiple pull requests created by kanvas'')))"
proof -
  let ?head = "branchName (ID pj) (DeployPhase.Name (FindPhase pj phase))
                 (if tag = [] then ecr_tag E (Suc (length (log s))) else tag)"
  from Prepare_calls(3) [OF run refl] tool
  have r: "r = (if length prs = 0 then Ret (failed_output\<lparr>status := DeployStatusAlready\<rparr>, None)
                else if length prs > 1 then
                  Ret (failed_output,
                    Some (New ''gocat does not yet support multiple pull requests created by kanvas''))
                else (case Atoi (Number (prs ! 0)) of
                        None \<Rightarrow> Ret (failed_output,
                             Some (Wrap ''failed to convert pull request number to int''
                                     (Lib ''strconv.Atoi'')))
                      | Some prNum \<Rightarrow>
                          Ret (\<lparr>PullRequestID = NodeID (prs ! 0),
                                PullRequestNumber = prNum,
                                PullRequestHTMLURL = HTMLURL (prs ! 0),
                                GitOpsPrepareOutput.Branch = ?head,
                                status = DeployStatusSuccess\<rparr>, None)))"
    by auto
  have h: "?head = ''bot/docker-image-tag-'' @ ID pj @ ''-'' @
                        DeployPhase.Name (FindPhase pj phase) @ ''-'' @
                        (if tag = [] then ecr_tag E (Suc (length (log s))) else tag)"
    by (simp add: branchName_def)
  show ?thesis unfolding r h by auto
qed

theorem Prepare_outcome_witness:
  "map snd (apply_calls (emitted example_world
     (snd (Prepare one_pull_request_env example_plugin example_project ''staging'' ''main''
             example_user ''v2'' example_world)))) = [Inr [example_pull_request]] \<and>
   Atoi (Number example_pull_request) = Some 7 \<and>
   fst (Prepare one_pull_request_env example_plugin example_project ''staging'' ''main''
          example_user ''v2'' example_world) =
     Ret (\<lparr>PullRequestID = ''PR_1'',
           PullRequestNumber = 7,
           PullRequestHTMLURL = ''https://github.com/zaiminc/infra/pull/7'',
           GitOpsPrepareOutput.Branch = ''bot/docker-image-tag-myapp-staging-v2'',
           status = DeployStatusSuccess\<rparr>, None)"
proof -
  let ?run = "Prepare one_pull_request_env example_plugin example_project ''staging'' ''main''
                example_user ''v2'' example_world"
  let ?calls = "apply_calls (emitted example_world (snd ?run))"
  note defs = code_defs prim_defs example_defs path_defs Atoi_def is_digit_def
  have calls: "map snd ?calls = [Inr [example_pull_request]]"
    by (simp add: defs)
  then have tool: "(fst (hd ?calls), Inr [example_pull_request]) \<in> set ?calls"
    by (cases ?calls) auto
  have n: "Atoi (Number example_pull_request) = Some 7"
    by (simp add: Atoi_def is_digit_def example_pull_request_def)
  have run: "?run = (fst ?run, snd ?run)" by simp
  from Prepare_outcome [OF run tool] n calls
  show ?thesis
    by (simp add: example_defs FindPhase_def)
qed

text \<open>
  C8. Every branch name \<open>PushDockerImageTag\<close> hands to a call (the reference it
  removes, the branch it creates, the reference it sets, the refspec it pushes) and the
  branch it returns are \<open>bot/docker-image-tag-<id>-<phase name>-<tag>\<close>, the returned
  branch being empty instead where the code returns it empty with an error; and the
  pull-request head \<open>Prepare\<close> gives the kanvas tool and the branch of its successful
  outcome are that string for the project's id, the resolved phase's name and the tag
  (the one given, or the one the registry returned when none was given).
\<close>

theorem branch_name_format:
  "(PushDockerImageTag E g ident phase tag targetTag s = (r, s') \<longrightarrow>
      (\<forall>ev\<in>set (emitted s s'). names_branch
         (''bot/docker-image-tag-'' @ ident @ ''-'' @ DeployPhase.Name phase @ ''-'' @ tag) ev) \<and>
      (\<forall>b err. r = Ret (b, err) \<longrightarrow>
         b = ''bot/docker-image-tag-'' @ ident @ ''-'' @ DeployPhase.Name phase @ ''-'' @ tag \<or>
         (b = [] \<and> err \<noteq> None))) \<and>
   (Prepare E k pj phaseName branch assigner tag s = (r', s'') \<longrightarrow>
      (\<forall>ev\<in>set (emitted s s''). names_branch
         (''bot/docker-image-tag-'' @ ID pj @ ''-'' @ DeployPhase.Name (FindPhase pj phaseName) @
          ''-'' @ (if tag = [] then ecr_tag E (Suc (length (log s))) else tag)) ev) \<and>
      (\<forall>out err. r' = Ret (out, err) \<and> status out = DeployStatusSuccess \<longrightarrow>
         GitOpsPrepareOutput.Branch out =
           ''bot/docker-image-tag-'' @ ID pj @ ''-'' @ DeployPhase.Name (FindPhase pj phaseName) @
           ''-'' @ (if tag = [] then ecr_tag E (Suc (length (log s))) else tag)))"
proof (intro conjI impI)
  let ?b = "branchName ident (DeployPhase.Name phase) tag"
  have b: "?b = ''bot/docker-image-tag-'' @ ident @ ''-'' @ DeployPhase.Name phase @ ''-'' @ tag"
    by (simp add: branchName_def)
  assume run: "PushDockerImageTag E g ident phase tag targetTag s = (r, s')"
  from run refl have "\<forall>ev\<in>set (emitted s s'). names_branch ?b ev"
    by (cases rule: PushDockerImageTag_trace) auto
  then show "\<forall>ev\<in>set (emitted s s'). names_branch
         (''bot/docker-image-tag-'' @ ident @ ''-'' @ DeployPhase.Name phase @ ''-'' @ tag) ev"
    unfolding b .
  from run PushDockerImageTag_branch
  have "\<forall>b err. r = Ret (b, err) \<longrightarrow> b = ?b \<or> (b = [] \<and> err \<noteq> None)"
    by blast
  then show "\<forall>b err. r = Ret (b, err) \<longrightarrow>
         b = ''bot/docker-image-tag-'' @ ident @ ''-'' @ DeployPhase.Name phase @ ''-'' @ tag \<or>
         (b = [] \<and> err \<noteq> None)"
    unfolding b .
next
  let ?h = "branchName (ID pj) (DeployPhase.Name (FindPhase pj phaseName))
              (if tag = [] then ecr_tag E (Suc (length (log s))) else tag)"
  have h: "?h = ''bot/docker-image-tag-'' @ ID pj @ ''-'' @
      DeployPhase.Name (FindPhase pj phaseName) @
      ''-'' @ (if tag = [] then ecr_tag E (Suc (length (log s))) else tag)"
    by (simp add: branchName_def)
  assume run: "Prepare E k pj phaseName branch assigner tag s = (r', s'')"
  from Prepare_calls(1) [OF run refl]
  show "\<forall>ev\<in>set (emitted s s''). names_branch
         (''bot/docker-image-tag-'' @ ID pj @ ''-'' @ DeployPhase.Name (FindPhase pj phaseName) @
          ''-'' @ (if tag = [] then ecr_tag E (Suc (length (log s))) else tag)) ev"
    unfolding h .
  from Prepare_calls(2) [OF run refl]
  show "\<forall>out err. r' = Ret (out, err) \<and> status out = DeployStatusSuccess \<longrightarrow>
         GitOpsPrepareOutput.Branch out =
           ''bot/docker-image-tag-'' @ ID pj @ ''-'' @ DeployPhase.Name (FindPhase pj phaseName) @
           ''-'' @ (if tag = [] then ecr_tag E (Suc (length (log s))) else tag)"
    unfolding h .
qed

theorem branch_name_format_witness:
  "fst (PushDockerImageTag clean_env example_operator ''myapp'' example_phase ''v2'' ''app''
          example_world) = Ret (''bot/docker-image-tag-myapp-staging-v2'', None) \<and>
   filter is_publish (emitted example_world
     (snd (PushDockerImageTag clean_env example_operator ''myapp'' example_phase ''v2'' ''app''
             example_world))) =
     [WorktreeCommit 0 ''Change docker image tag. target: overlays/staging/kustomization.yaml, phase: staging, tag: v2.'' ''bot'',
      StorerSetReference 0 ''bot/docker-image-tag-myapp-staging-v2'' ''3333'',
      RemotePush 0 ''bot/docker-image-tag-myapp-staging-v2:refs/heads/bot/docker-image-tag-myapp-staging-v2''] \<and>
   list_all (names_branch ''bot/docker-image-tag-myapp-staging-v2'') (emitted example_world
     (snd (PushDockerImageTag clean_env example_operator ''myapp'' example_phase ''v2'' ''app''
             example_world))) \<and>
   map (PullRequestHead \<circ> fst) (apply_calls (emitted example_world
     (snd (Prepare one_pull_request_env example_plugin example_project ''staging'' ''main''
             example_user [] example_world)))) = [''bot/docker-image-tag-myapp-staging-v2''] \<and>
   list_all (names_branch ''bot/docker-image-tag-myapp-staging-v2'') (emitted example_world
     (snd (Prepare one_pull_request_env example_plugin example_project ''staging'' ''main''
             example_user [] example_world)))"
proof -
  let ?push = "PushDockerImageTag clean_env example_operator ''myapp'' example_phase ''v2'' ''app''
                 example_world"
  let ?prep = "Prepare one_pull_request_env example_plugin example_project ''staging'' ''main''
                 example_user [] example_world"
  note defs = code_defs prim_defs example_defs path_defs Atoi_def is_digit_def
  have p1: "fst ?push = Ret (''bot/docker-image-tag-myapp-staging-v2'', None)"
    by (simp add: defs)
  have p2: "filter is_publish (emitted example_world (snd ?push)) =
     [WorktreeCommit 0 ''Change docker image tag. target: overlays/staging/kustomization.yaml, phase: staging, tag: v2.'' ''bot'',
      StorerSetReference 0 ''bot/docker-image-tag-myapp-staging-v2'' ''3333'',
      RemotePush 0 ''bot/docker-image-tag-myapp-staging-v2:refs/heads/bot/docker-image-tag-myapp-staging-v2'']"
    by (simp add: defs)
  have p3: "map (PullRequestHead \<circ> fst) (apply_calls (emitted example_world (snd ?prep))) =
      [''bot/docker-image-tag-myapp-staging-v2'']"
    by (simp add: defs)
  have tg: "ecr_tag one_pull_request_env (Suc (length (log example_world))) = ''v2''"
    by (simp add: example_defs)
  from branch_name_format [of clean_env example_operator "''myapp''" example_phase "''v2''"
      "''app''" example_world "fst ?push" "snd ?push"]
  have n1: "list_all (names_branch ''bot/docker-image-tag-myapp-staging-v2'')
      (emitted example_world (snd ?push))"
    by (simp add: list_all_iff example_phase_def)
  from branch_name_format [of one_pull_request_env _ _ _ "[]" _ example_world _ _
      example_plugin example_project "''staging''" "''main''" example_user "fst ?prep" "snd ?prep"]
  have n2: "list_all (names_branch ''bot/docker-image-tag-myapp-staging-v2'')
      (emitted example_world (snd ?prep))"
    by (simp add: list_all_iff tg FindPhase_def example_project_def example_phase_def)
  from p1 p2 n1 p3 n2 show ?thesis by (intro conjI)
qed




end
